theory Spec2Isabelle
  imports Main "HOL-Library.Word" "HOL-Library.Multiset"
begin

unbundle bit_operations_syntax

section \<open>The LVACFS binding layer of the audio HAL (hal/Lvacfs.cpp)\<close>

text \<open>
  The file binds an external, closed processing module at run time and drives it per
  input stream. Everything the code does outside its own fields is an interaction with
  a collaborator: the file system (\<open>access\<close>), the dynamic loader (\<open>dlopen\<close>,
  \<open>dlsym\<close>, \<open>dlclose\<close>), the allocator (\<open>calloc\<close>, \<open>free\<close>), the logger and the
  module's entry points. The model threads a chronological trace of these interactions
  through every operation and reads each collaborator's answer from an environment.
\<close>

subsection \<open>Pointers, paths and the capability table\<close>

text \<open>A pointer is an address; \<open>0\<close> is the null pointer.\<close>

type_synonym ptr = nat

text \<open>The path macros. \<open>VENDOR_LIBS\<close> and \<open>ODM_LIBS\<close> depend on \<open>__LP64__\<close>.\<close>

definition VENDOR_LIBS :: "bool \<Rightarrow> string" where
  "VENDOR_LIBS lp = (if lp then ''/vendor/lib64/'' else ''/vendor/lib/'')"

definition ODM_LIBS :: "bool \<Rightarrow> string" where
  "ODM_LIBS lp = (if lp then ''/odm/lib64/'' else ''/odm/lib/'')"

definition LVACFS_WRAPPER_LIB_NAME :: string where
  "LVACFS_WRAPPER_LIB_NAME = ''liblvacfs_wrapper.so''"

definition VENDOR_LIB_PATH :: "bool \<Rightarrow> string" where
  "VENDOR_LIB_PATH lp = VENDOR_LIBS lp @ LVACFS_WRAPPER_LIB_NAME"

definition ODM_LIB_PATH :: "bool \<Rightarrow> string" where
  "ODM_LIB_PATH lp = ODM_LIBS lp @ LVACFS_WRAPPER_LIB_NAME"

definition ODM_PARAMS_DIR_PATH :: string where
  "ODM_PARAMS_DIR_PATH = ''/odm/etc/lvacfs_params''"

definition VENDOR_PARAMS_DIR_PATH :: string where
  "VENDOR_PARAMS_DIR_PATH = ''/vendor/etc/lvacfs_params''"

text \<open>
  \<open>struct lvacfs_wrapper_ops\<close>: the module handle and one function pointer per entry
  point. The struct is declared in Lvacfs.h; its members are the ones \<open>init\<close> assigns.
\<close>

record lvacfs_wrapper_ops =
  lib_handle :: ptr
  create_instance :: ptr
  destroy_instance :: ptr
  process :: ptr
  update_zoom_info :: ptr
  update_angle_info :: ptr
  set_params_file_path :: ptr
  set_profile :: ptr
  set_audio_direction :: ptr
  set_device_orientation :: ptr
  get_versions :: ptr

text \<open>\<open>std::make_unique<struct lvacfs_wrapper_ops>()\<close> value-initialises: every member is null.\<close>

definition null_ops :: lvacfs_wrapper_ops where
  "null_ops = \<lparr> lib_handle = 0, create_instance = 0, destroy_instance = 0, process = 0,
     update_zoom_info = 0, update_angle_info = 0, set_params_file_path = 0, set_profile = 0,
     set_audio_direction = 0, set_device_orientation = 0, get_versions = 0 \<rparr>"

text \<open>The ten entry points, in the order \<open>init\<close> resolves them.\<close>

datatype capability =
    CapCreateInstance
  | CapDestroyInstance
  | CapProcess
  | CapUpdateZoomInfo
  | CapUpdateAngleInfo
  | CapSetParamsFilePath
  | CapSetProfile
  | CapSetAudioDirection
  | CapSetDeviceOrientation
  | CapGetVersions

definition all_capabilities :: "capability list" where
  "all_capabilities = [CapCreateInstance, CapDestroyInstance, CapProcess, CapUpdateZoomInfo,
     CapUpdateAngleInfo, CapSetParamsFilePath, CapSetProfile, CapSetAudioDirection,
     CapSetDeviceOrientation, CapGetVersions]"

text \<open>The symbol \<open>dlsym\<close> is asked for, per entry point.\<close>

fun symbol_name :: "capability \<Rightarrow> string" where
  "symbol_name CapCreateInstance = ''lvacfs_wrapper_CreateLibraryInstance''"
| "symbol_name CapDestroyInstance = ''lvacfs_wrapper_DestroyLibraryInstance''"
| "symbol_name CapProcess = ''lvacfs_wrapper_Process''"
| "symbol_name CapUpdateZoomInfo = ''lvacfs_wrapper_UpdateZoomInfo''"
| "symbol_name CapUpdateAngleInfo = ''lvacfs_wrapper_UpdateAngleInfo''"
| "symbol_name CapSetParamsFilePath = ''lvacfs_SetParamsFilePath''"
| "symbol_name CapSetProfile = ''lvacfs_wrapper_SetProfile''"
| "symbol_name CapSetAudioDirection = ''lvacfs_wrapper_SetAudioDirection''"
| "symbol_name CapSetDeviceOrientation = ''lvacfs_wrapper_SetDeviceOrientation''"
| "symbol_name CapGetVersions = ''lvacfs_wrapper_GetVersions''"

text \<open>The member of the struct that holds an entry point: read and assignment.\<close>

fun get_cap :: "capability \<Rightarrow> lvacfs_wrapper_ops \<Rightarrow> ptr" where
  "get_cap CapCreateInstance ops = create_instance ops"
| "get_cap CapDestroyInstance ops = destroy_instance ops"
| "get_cap CapProcess ops = process ops"
| "get_cap CapUpdateZoomInfo ops = update_zoom_info ops"
| "get_cap CapUpdateAngleInfo ops = update_angle_info ops"
| "get_cap CapSetParamsFilePath ops = set_params_file_path ops"
| "get_cap CapSetProfile ops = set_profile ops"
| "get_cap CapSetAudioDirection ops = set_audio_direction ops"
| "get_cap CapSetDeviceOrientation ops = set_device_orientation ops"
| "get_cap CapGetVersions ops = get_versions ops"

fun set_cap :: "capability \<Rightarrow> ptr \<Rightarrow> lvacfs_wrapper_ops \<Rightarrow> lvacfs_wrapper_ops" where
  "set_cap CapCreateInstance p ops = ops\<lparr>create_instance := p\<rparr>"
| "set_cap CapDestroyInstance p ops = ops\<lparr>destroy_instance := p\<rparr>"
| "set_cap CapProcess p ops = ops\<lparr>process := p\<rparr>"
| "set_cap CapUpdateZoomInfo p ops = ops\<lparr>update_zoom_info := p\<rparr>"
| "set_cap CapUpdateAngleInfo p ops = ops\<lparr>update_angle_info := p\<rparr>"
| "set_cap CapSetParamsFilePath p ops = ops\<lparr>set_params_file_path := p\<rparr>"
| "set_cap CapSetProfile p ops = ops\<lparr>set_profile := p\<rparr>"
| "set_cap CapSetAudioDirection p ops = ops\<lparr>set_audio_direction := p\<rparr>"
| "set_cap CapSetDeviceOrientation p ops = ops\<lparr>set_device_orientation := p\<rparr>"
| "set_cap CapGetVersions p ops = ops\<lparr>get_versions := p\<rparr>"

text \<open>
  The members of class \<open>Lvacfs\<close> that the file uses: \<open>params_file_path_\<close> (a
  \<open>const char*\<close>, \<open>None\<close> for the null pointer) and the \<open>std::unique_ptr\<close>
  \<open>wrapper_ops_\<close> (\<open>None\<close> when it owns nothing). Member names are written
  without the trailing underscore of the source, here and in \<open>StreamInPrimary\<close>
  (\<open>config_\<close>, \<open>source_\<close>).
\<close>

record Lvacfs =
  params_file_path :: "string option"
  wrapper_ops :: "lvacfs_wrapper_ops option"

subsection \<open>The stream, the module's calls and the trace\<close>

text \<open>
  The members of \<open>StreamInPrimary\<close> the file reads or writes. \<open>lvacfs_handle\<close> is
  the \<open>void**\<close> slot obtained from \<open>calloc\<close>; the code never reads what the slot
  holds, only the module does.
\<close>

record audio_config =
  channel_mask :: "32 word"
  sample_rate :: "32 word"
  format :: "32 word"

record StreamInPrimary =
  lvacfs_handle :: ptr
  config :: audio_config
  source :: int

text \<open>A call into the module, with the arguments the code passes.\<close>

datatype call =
    SetParamsFilePath "string option"
  | CreateInstance ptr int "64 word" "32 word"
  | Process ptr "8 word list" "32 word" "8 word list"
  | DestroyInstance ptr

datatype event =
    Access string bool
  | Dlopen string ptr
  | Dlsym ptr string ptr
  | Dlclose ptr
  | Calloc ptr
  | Free ptr
  | LockAcquire
  | LockRelease
  | Call call int
  | ALOGE string
  | ALOGI string

text \<open>
  The collaborators' answers. The loader's and the file system's answers are fixed per
  path and symbol; the allocator and the module may answer from the whole history.
  \<open>audio_channel_count_from_in_mask\<close> and \<open>audio_bytes_per_sample\<close> are the
  platform's helpers (system/audio.h), taken as parameters: the first gives the bits
  stored in \<open>int channel_count\<close>, the second a \<open>size_t\<close>. \<open>lp64\<close> is \<open>__LP64__\<close>.
\<close>

record environment =
  lp64 :: bool
  access_ok :: "string \<Rightarrow> bool"
  dlopen_result :: "string \<Rightarrow> ptr"
  dlsym_result :: "ptr \<Rightarrow> string \<Rightarrow> ptr"
  calloc_result :: "event list \<Rightarrow> ptr"
  module_ret :: "event list \<Rightarrow> call \<Rightarrow> int"
  module_buffer :: "event list \<Rightarrow> call \<Rightarrow> 8 word list"
  audio_channel_count_from_in_mask :: "32 word \<Rightarrow> 32 word"
  audio_bytes_per_sample :: "32 word \<Rightarrow> nat"

subsection \<open>Lvacfs::deinit\<close>

definition deinit :: "Lvacfs \<Rightarrow> event list \<Rightarrow> Lvacfs \<times> event list" where
  "deinit e tr =
     (let tr1 = (case wrapper_ops e of
                   None \<Rightarrow> tr
                 | Some ops \<Rightarrow> if lib_handle ops \<noteq> 0 then tr @ [Dlclose (lib_handle ops)] else tr)
      in (e\<lparr>wrapper_ops := None\<rparr>, tr1 @ [ALOGI ''LVACFS deinitialized'']))"

subsection \<open>Lvacfs::init\<close>

text \<open>
  The chain of \<open>dlsym\<close> assignments joined by \<open>||\<close>: each entry point is assigned in
  turn, and the first null result stops the chain, leaving the later members as they
  were. The result says whether every assignment was non-null.
\<close>

fun bind_symbols ::
  "environment \<Rightarrow> capability list \<Rightarrow> lvacfs_wrapper_ops \<Rightarrow> event list
     \<Rightarrow> lvacfs_wrapper_ops \<times> bool \<times> event list" where
  "bind_symbols env [] ops tr = (ops, True, tr)"
| "bind_symbols env (c # cs) ops tr =
     (let p = dlsym_result env (lib_handle ops) (symbol_name c);
          ops' = set_cap c p ops;
          tr' = tr @ [Dlsym (lib_handle ops) (symbol_name c) p]
      in if get_cap c ops' = 0 then (ops', False, tr') else bind_symbols env cs ops' tr')"

text \<open>The last part of \<open>init\<close>: symbol resolution, with \<open>deinit\<close> on failure.\<close>

definition init_symbols :: "environment \<Rightarrow> Lvacfs \<Rightarrow> lvacfs_wrapper_ops \<Rightarrow> event list
    \<Rightarrow> Lvacfs \<times> event list" where
  "init_symbols env e ops tr =
     (case bind_symbols env all_capabilities ops tr of
        (ops', ok, tr') \<Rightarrow>
          if \<not> ok
          then deinit (e\<lparr>wrapper_ops := Some ops'\<rparr>)
                      (tr' @ [ALOGE ''Failed to load one or more symbols: %s''])
          else (e\<lparr>wrapper_ops := Some ops'\<rparr>, tr' @ [ALOGI ''LVACFS initialized successfully'']))"

text \<open>The middle part of \<open>init\<close>: allocation of the table and the two \<open>dlopen\<close> attempts.\<close>

definition init_load :: "environment \<Rightarrow> Lvacfs \<Rightarrow> event list \<Rightarrow> Lvacfs \<times> event list" where
  "init_load env e tr =
     (let e1 = e\<lparr>wrapper_ops := Some null_ops\<rparr> in
      case wrapper_ops e1 of
        None \<Rightarrow> (e1, tr @ [ALOGE ''Failed to allocate lvacfs_wrapper_ops''])
      | Some ops \<Rightarrow>
          let h1 = dlopen_result env (ODM_LIB_PATH (lp64 env));
              ops1 = ops\<lparr>lib_handle := h1\<rparr>;
              tr1 = tr @ [Dlopen (ODM_LIB_PATH (lp64 env)) h1]
          in if lib_handle ops1 = 0
             then
               let h2 = dlopen_result env (VENDOR_LIB_PATH (lp64 env));
                   ops2 = ops1\<lparr>lib_handle := h2\<rparr>;
                   tr2 = tr1 @ [Dlopen (VENDOR_LIB_PATH (lp64 env)) h2]
               in if lib_handle ops2 = 0
                  then (e1\<lparr>wrapper_ops := Some ops2\<rparr>,
                        tr2 @ [ALOGE ''dlopen failed for %s and %s: %s''])
                  else init_symbols env e1 ops2 tr2
             else init_symbols env e1 ops1 tr1)"

definition init :: "environment \<Rightarrow> Lvacfs \<Rightarrow> event list \<Rightarrow> Lvacfs \<times> event list" where
  "init env e tr =
     (let odm = access_ok env ODM_PARAMS_DIR_PATH;
          tr1 = tr @ [Access ODM_PARAMS_DIR_PATH odm]
      in if odm then init_load env (e\<lparr>params_file_path := Some ODM_PARAMS_DIR_PATH\<rparr>) tr1
         else
           let vendor = access_ok env VENDOR_PARAMS_DIR_PATH;
               tr2 = tr1 @ [Access VENDOR_PARAMS_DIR_PATH vendor]
           in if vendor
              then init_load env (e\<lparr>params_file_path := Some VENDOR_PARAMS_DIR_PATH\<rparr>) tr2
              else (e, tr2 @ [ALOGE ''No params directory found'']))"

subsection \<open>Calls through the capability table\<close>

text \<open>
  Undefined behaviour is a value of the model: a call through \<open>wrapper_ops_\<close> when it
  owns no table, a call through a null function pointer, and an integer division by
  zero. Nothing is said about the program after one of them.
\<close>

datatype fault = NullTable | NullEntry capability | DivideByZero

definition entry_point :: "Lvacfs \<Rightarrow> capability \<Rightarrow> fault + ptr" where
  "entry_point e c =
     (case wrapper_ops e of
        None \<Rightarrow> Inl NullTable
      | Some ops \<Rightarrow> if get_cap c ops = 0 then Inl (NullEntry c) else Inr (get_cap c ops))"

text \<open>\<open>wrapper_ops_->f(args)\<close>: the module answers, and the call is recorded.\<close>

definition invoke ::
  "environment \<Rightarrow> Lvacfs \<Rightarrow> capability \<Rightarrow> call \<Rightarrow> event list \<Rightarrow> fault + (int \<times> event list)" where
  "invoke env e c a tr =
     (case entry_point e c of
        Inl f \<Rightarrow> Inl f
      | Inr p \<Rightarrow> let ret = module_ret env tr a in Inr (ret, tr @ [Call a ret]))"

subsection \<open>Lvacfs::stopInputStream\<close>

definition stopInputStream ::
  "environment \<Rightarrow> Lvacfs \<Rightarrow> StreamInPrimary \<Rightarrow> event list \<Rightarrow> fault + (StreamInPrimary \<times> event list)" where
  "stopInputStream env e s tr =
     (case invoke env e CapDestroyInstance (DestroyInstance (lvacfs_handle s)) tr of
        Inl f \<Rightarrow> Inl f
      | Inr (ret, tr1) \<Rightarrow>
          let tr2 = (if ret < 0 then tr1 @ [ALOGE ''destroy instance failed: %d''] else tr1)
          in Inr (s\<lparr>lvacfs_handle := 0\<rparr>, tr2 @ [Free (lvacfs_handle s)]))"

subsection \<open>Lvacfs::startInputStream\<close>

text \<open>\<open>((channel_count & 0xFFFF) << 16) | (channel_count & 0xFFFF)\<close>, as a \<open>uint32_t\<close>.\<close>

definition channels_of :: "32 word \<Rightarrow> 32 word" where
  "channels_of channel_count =
     push_bit 16 (channel_count AND 0xFFFF) OR (channel_count AND 0xFFFF)"

text \<open>\<open>((uint64_t)0 << 32) | in->config_.sample_rate\<close>.\<close>

definition sample_rate_and_format_of :: "32 word \<Rightarrow> 64 word" where
  "sample_rate_and_format_of rate = push_bit 32 (0 :: 64 word) OR ucast rate"

definition startInputStream ::
  "environment \<Rightarrow> Lvacfs \<Rightarrow> StreamInPrimary \<Rightarrow> event list \<Rightarrow> fault + (StreamInPrimary \<times> event list)" where
  "startInputStream env e s tr =
     (let h = calloc_result env tr;
          s1 = s\<lparr>lvacfs_handle := h\<rparr>;
          tr1 = tr @ [Calloc h]
      in if lvacfs_handle s1 = 0
         then Inr (s1, tr1 @ [ALOGE ''Failed to allocate lvacfs_handle''])
         else
           case invoke env e CapSetParamsFilePath (SetParamsFilePath (params_file_path e)) tr1 of
             Inl f \<Rightarrow> Inl f
           | Inr (r0, tr2) \<Rightarrow>
               let channel_count = audio_channel_count_from_in_mask env (channel_mask (config s1));
                   channels = channels_of channel_count;
                   sample_rate_and_format = sample_rate_and_format_of (sample_rate (config s1))
               in (case invoke env e CapCreateInstance
                          (CreateInstance (lvacfs_handle s1) (source s1) sample_rate_and_format channels)
                          tr2 of
                     Inl f \<Rightarrow> Inl f
                   | Inr (ret, tr3) \<Rightarrow>
                       if ret < 0
                       then stopInputStream env e s1 (tr3 @ [ALOGE ''create instance failed: %d''])
                       else Inr (s1, tr3)))"

subsection \<open>Lvacfs::processInputStream\<close>

text \<open>
  \<open>size_t\<close> has 64 bits under \<open>__LP64__\<close> and 32 otherwise; values of that type are
  naturals below \<open>2 ^ size_t_bits\<close>, with the wrap-around written out. \<open>to_size_t\<close>
  is the conversion of an \<open>int\<close> operand to \<open>size_t\<close>.
\<close>

definition size_t_bits :: "bool \<Rightarrow> nat" where
  "size_t_bits lp = (if lp then 64 else 32)"

definition to_size_t :: "bool \<Rightarrow> int \<Rightarrow> nat" where
  "to_size_t lp i = nat (i mod 2 ^ size_t_bits lp)"

text \<open>\<open>channel_count * audio_bytes_per_sample(in->config_.format)\<close>, a \<open>size_t\<close> product.\<close>

definition frame_size :: "bool \<Rightarrow> 32 word \<Rightarrow> nat \<Rightarrow> nat" where
  "frame_size lp channel_count bytes_per_sample =
     (to_size_t lp (sint channel_count) * bytes_per_sample) mod 2 ^ size_t_bits lp"

text \<open>
  \<open>uint32_t num_frames = bytes / (...)\<close>: the \<open>size_t\<close> quotient, narrowed to 32 bits.
  The code has no test of the divisor.
\<close>

definition num_frames_of :: "bool \<Rightarrow> nat \<Rightarrow> 32 word \<Rightarrow> nat \<Rightarrow> fault + 32 word" where
  "num_frames_of lp bytes channel_count bytes_per_sample =
     (let d = frame_size lp channel_count bytes_per_sample
      in if d = 0 then Inl DivideByZero else Inr (of_nat (bytes div d)))"

text \<open>\<open>uint8_t status_buffer[0x160] = {0}\<close>.\<close>

definition status_buffer :: "8 word list" where
  "status_buffer = replicate 0x160 0"

text \<open>
  The buffer is passed as input and output; the result carries its contents after the
  call. \<open>std::lock_guard\<close> takes \<open>in->lvacfs_lock\<close> on entry and gives it back when the
  function returns.
\<close>

definition processInputStream ::
  "environment \<Rightarrow> Lvacfs \<Rightarrow> StreamInPrimary \<Rightarrow> 8 word list \<Rightarrow> nat \<Rightarrow> event list
     \<Rightarrow> fault + (StreamInPrimary \<times> 8 word list \<times> event list)" where
  "processInputStream env e s buffer bytes tr =
     (let tr0 = tr @ [LockAcquire];
          channel_count = audio_channel_count_from_in_mask env (channel_mask (config s))
      in case num_frames_of (lp64 env) bytes channel_count
                (audio_bytes_per_sample env (format (config s))) of
           Inl f \<Rightarrow> Inl f
         | Inr num_frames \<Rightarrow>
             let a = Process (lvacfs_handle s) buffer num_frames status_buffer
             in (case invoke env e CapProcess a tr0 of
                   Inl f \<Rightarrow> Inl f
                 | Inr (ret, tr1) \<Rightarrow>
                     let buffer' = module_buffer env tr0 a
                     in if ret < 0
                        then (case stopInputStream env e s (tr1 @ [ALOGE ''process failed: %d'']) of
                                Inl f \<Rightarrow> Inl f
                              | Inr (s', tr2) \<Rightarrow> Inr (s', buffer', tr2 @ [LockRelease]))
                        else Inr (s, buffer', tr1 @ [LockRelease])))"

section \<open>Observations\<close>

text \<open>
  What a caller can learn of the engine: the module handle (null when there is no table)
  and, per entry point, whether a call through the table reaches the module.
\<close>

definition module_handle :: "Lvacfs \<Rightarrow> ptr" where
  "module_handle e = (case wrapper_ops e of None \<Rightarrow> 0 | Some ops \<Rightarrow> lib_handle ops)"

definition callable :: "Lvacfs \<Rightarrow> capability \<Rightarrow> bool" where
  "callable e c = (case entry_point e c of Inl f \<Rightarrow> False | Inr p \<Rightarrow> True)"

definition observe :: "Lvacfs \<Rightarrow> ptr \<times> bool list" where
  "observe e = (module_handle e, map (callable e) all_capabilities)"

definition ready :: "Lvacfs \<Rightarrow> bool" where
  "ready e = (module_handle e \<noteq> 0 \<and> list_all (callable e) all_capabilities)"

definition inert :: "Lvacfs \<Rightarrow> bool" where
  "inert e = (module_handle e = 0 \<and> list_all (\<lambda>c. \<not> callable e c) all_capabilities)"

text \<open>An engine on which \<open>init\<close> was never called: \<open>wrapper_ops_\<close> owns nothing.\<close>

definition never_initialised :: "string option \<Rightarrow> Lvacfs" where
  "never_initialised p = \<lparr> params_file_path = p, wrapper_ops = None \<rparr>"

text \<open>
  The libraries a trace leaves loaded: every successful \<open>dlopen\<close> adds its handle, every
  \<open>dlclose\<close> takes one away. Likewise the slots \<open>calloc\<close> gave out and \<open>free\<close> has not
  taken back (\<open>free\<close> of the null pointer does nothing).
\<close>

fun loaded_step :: "ptr multiset \<Rightarrow> event \<Rightarrow> ptr multiset" where
  "loaded_step ls (Dlopen path h) = (if h = 0 then ls else add_mset h ls)"
| "loaded_step ls (Dlclose h) = ls - {#h#}"
| "loaded_step ls ev = ls"

definition loaded_libs :: "event list \<Rightarrow> ptr multiset" where
  "loaded_libs tr = foldl loaded_step {#} tr"

fun alloc_step :: "ptr multiset \<Rightarrow> event \<Rightarrow> ptr multiset" where
  "alloc_step ls (Calloc h) = (if h = 0 then ls else add_mset h ls)"
| "alloc_step ls (Free h) = ls - {#h#}"
| "alloc_step ls ev = ls"

definition live_allocs :: "event list \<Rightarrow> ptr multiset" where
  "live_allocs tr = foldl alloc_step {#} tr"

text \<open>Projections of a trace: the existence checks, the load attempts, the symbol
  lookups and the calls of one entry point, in order.\<close>

fun access_of :: "event \<Rightarrow> (string \<times> bool) list" where
  "access_of (Access path ok) = [(path, ok)]"
| "access_of ev = []"

definition access_checks :: "event list \<Rightarrow> (string \<times> bool) list" where
  "access_checks tr = concat (map access_of tr)"

fun dlopen_of :: "event \<Rightarrow> (string \<times> ptr) list" where
  "dlopen_of (Dlopen path h) = [(path, h)]"
| "dlopen_of ev = []"

definition dlopen_attempts :: "event list \<Rightarrow> (string \<times> ptr) list" where
  "dlopen_attempts tr = concat (map dlopen_of tr)"

fun dlsym_of :: "event \<Rightarrow> (ptr \<times> string) list" where
  "dlsym_of (Dlsym h name p) = [(h, name)]"
| "dlsym_of ev = []"

definition dlsym_lookups :: "event list \<Rightarrow> (ptr \<times> string) list" where
  "dlsym_lookups tr = concat (map dlsym_of tr)"

fun create_of :: "event \<Rightarrow> (ptr \<times> int \<times> 64 word \<times> 32 word) list" where
  "create_of (Call (CreateInstance h src rate_format channels) ret) = [(h, src, rate_format, channels)]"
| "create_of ev = []"

definition create_calls :: "event list \<Rightarrow> (ptr \<times> int \<times> 64 word \<times> 32 word) list" where
  "create_calls tr = concat (map create_of tr)"

fun destroy_of :: "event \<Rightarrow> ptr list" where
  "destroy_of (Call (DestroyInstance h) ret) = [h]"
| "destroy_of ev = []"

definition destroy_calls :: "event list \<Rightarrow> ptr list" where
  "destroy_calls tr = concat (map destroy_of tr)"

fun process_of :: "event \<Rightarrow> (ptr \<times> 32 word) list" where
  "process_of (Call (Process h buf frames status) ret) = [(h, frames)]"
| "process_of ev = []"

definition process_calls :: "event list \<Rightarrow> (ptr \<times> 32 word) list" where
  "process_calls tr = concat (map process_of tr)"





text \<open>
  Names for what the stream operations pass to the module: the arguments of the
  create-instance call, the trace at the moment of that call, the module's answer to it,
  and the events the stop path adds for a handle.
\<close>

definition create_args :: "environment \<Rightarrow> StreamInPrimary \<Rightarrow> ptr \<Rightarrow> call" where
  "create_args env s h =
     CreateInstance h (source s) (sample_rate_and_format_of (sample_rate (config s)))
       (channels_of (audio_channel_count_from_in_mask env (channel_mask (config s))))"

definition trace_to_create :: "environment \<Rightarrow> Lvacfs \<Rightarrow> event list \<Rightarrow> event list" where
  "trace_to_create env e tr =
     (let tr1 = tr @ [Calloc (calloc_result env tr)]
      in tr1 @ [Call (SetParamsFilePath (params_file_path e))
                  (module_ret env tr1 (SetParamsFilePath (params_file_path e)))])"

definition create_ret :: "environment \<Rightarrow> Lvacfs \<Rightarrow> StreamInPrimary \<Rightarrow> event list \<Rightarrow> int" where
  "create_ret env e s tr =
     module_ret env (trace_to_create env e tr) (create_args env s (calloc_result env tr))"

definition destroy_events :: "environment \<Rightarrow> ptr \<Rightarrow> event list \<Rightarrow> event list" where
  "destroy_events env h tr =
     (let ret = module_ret env tr (DestroyInstance h)
      in [Call (DestroyInstance h) ret]
         @ (if ret < 0 then [ALOGE ''destroy instance failed: %d''] else [])
         @ [Free h])"

section \<open>Concrete inputs\<close>

text \<open>
  A 64-bit device with only the vendor directory and the vendor library, a module that
  exports every symbol and accepts every call, and a stereo 16-bit stream at 48 kHz.
\<close>

definition env_ready :: environment where
  "env_ready = \<lparr> lp64 = True, access_ok = (\<lambda>p. p = VENDOR_PARAMS_DIR_PATH),
     dlopen_result = (\<lambda>p. if p = VENDOR_LIB_PATH True then 7 else 0),
     dlsym_result = (\<lambda>h n. 9),
     calloc_result = (\<lambda>tr. 100), module_ret = (\<lambda>tr a. 0), module_buffer = (\<lambda>tr a. []),
     audio_channel_count_from_in_mask = (\<lambda>m. 2), audio_bytes_per_sample = (\<lambda>f. 2) \<rparr>"

text \<open>The same device with a library that lacks \<open>lvacfs_wrapper_Process\<close>.\<close>

definition env_half_bound :: environment where
  "env_half_bound =
     env_ready \<lparr> dlsym_result := (\<lambda>h n. if n = ''lvacfs_wrapper_Process'' then 0 else 9) \<rparr>"

definition engine_ready :: Lvacfs where
  "engine_ready = \<lparr> params_file_path = Some VENDOR_PARAMS_DIR_PATH,
     wrapper_ops = Some \<lparr> lib_handle = 7, create_instance = 9, destroy_instance = 9,
       process = 9, update_zoom_info = 9, update_angle_info = 9, set_params_file_path = 9,
       set_profile = 9, set_audio_direction = 9, set_device_orientation = 9,
       get_versions = 9 \<rparr> \<rparr>"

definition stream0 :: StreamInPrimary where
  "stream0 = \<lparr> lvacfs_handle = 0,
     config = \<lparr> channel_mask = 12, sample_rate = 48000, format = 1 \<rparr>, source = 1 \<rparr>"

text \<open>A started stream, and modules that reject one call each.\<close>

definition stream_started :: StreamInPrimary where
  "stream_started = stream0 \<lparr> lvacfs_handle := 100 \<rparr>"

definition env_destroy_fails :: environment where
  "env_destroy_fails =
     env_ready \<lparr> module_ret := (\<lambda>tr a. case a of DestroyInstance h \<Rightarrow> - 5 | _ \<Rightarrow> 0) \<rparr>"

definition env_create_fails :: environment where
  "env_create_fails =
     env_ready \<lparr> module_ret := (\<lambda>tr a. case a of CreateInstance h src r c \<Rightarrow> - 1 | _ \<Rightarrow> 0) \<rparr>"

definition env_process_fails :: environment where
  "env_process_fails =
     env_ready \<lparr> module_ret := (\<lambda>tr a. case a of Process h b n st \<Rightarrow> - 1 | _ \<Rightarrow> 0) \<rparr>"

text \<open>
  Streams of other shapes on the same device: mono 8-bit, mono 16-bit, and a channel mask
  with no channel.
\<close>

definition env_mono8 :: environment where
  "env_mono8 = env_ready \<lparr> audio_channel_count_from_in_mask := (\<lambda>m. 1),
                             audio_bytes_per_sample := (\<lambda>f. 1) \<rparr>"

definition env_mono16 :: environment where
  "env_mono16 = env_ready \<lparr> audio_channel_count_from_in_mask := (\<lambda>m. 1) \<rparr>"

definition env_no_channels :: environment where
  "env_no_channels = env_ready \<lparr> audio_channel_count_from_in_mask := (\<lambda>m. 0) \<rparr>"

section \<open>Lemmas about the table and the traces\<close>

lemma get_cap_set_cap: "get_cap c (set_cap c' p ops) = (if c = c' then p else get_cap c ops)"
  by (cases c; cases c'; simp)

lemma lib_handle_set_cap: "lib_handle (set_cap c p ops) = lib_handle ops"
  by (cases c; simp)

lemma all_capabilities_complete: "c \<in> set all_capabilities"
  by (cases c; simp add: all_capabilities_def)

lemma distinct_all_capabilities: "distinct all_capabilities"
  by (simp add: all_capabilities_def)

lemma loaded_libs_snoc: "loaded_libs (tr @ evs) = foldl loaded_step (loaded_libs tr) evs"
  by (simp add: loaded_libs_def)

lemma bind_symbols_loaded:
  "loaded_libs (snd (snd (bind_symbols env cs ops tr))) = loaded_libs tr"
  by (induction cs arbitrary: ops tr) (simp_all add: Let_def loaded_libs_snoc)

lemma bind_symbols_lib_handle:
  "lib_handle (fst (bind_symbols env cs ops tr)) = lib_handle ops"
  by (induction cs arbitrary: ops tr) (simp_all add: Let_def lib_handle_set_cap)

lemma bind_symbols_frame:
  "c \<notin> set cs \<Longrightarrow> get_cap c (fst (bind_symbols env cs ops tr)) = get_cap c ops"
  by (induction cs arbitrary: ops tr) (simp_all add: Let_def get_cap_set_cap)

lemma bind_symbols_ok:
  "fst (snd (bind_symbols env cs ops tr)) \<Longrightarrow> distinct cs \<Longrightarrow> c \<in> set cs
     \<Longrightarrow> get_cap c (fst (bind_symbols env cs ops tr)) \<noteq> 0"
proof (induction cs arbitrary: ops tr)
  case Nil
  then show ?case by simp
next
  case (Cons a cs)
  let ?p = "dlsym_result env (lib_handle ops) (symbol_name a)"
  let ?ops = "set_cap a ?p ops"
  let ?tr = "tr @ [Dlsym (lib_handle ops) (symbol_name a) ?p]"
  have nz: "?p \<noteq> 0"
  proof
    assume "?p = 0"
    with Cons.prems(1) show False by (simp add: Let_def get_cap_set_cap)
  qed
  then have step: "bind_symbols env (a # cs) ops tr = bind_symbols env cs ?ops ?tr"
    by (simp add: Let_def get_cap_set_cap)
  show ?case
  proof (cases "c = a")
    case True
    with Cons.prems(2) have "a \<notin> set cs" by simp
    then have "get_cap a (fst (bind_symbols env cs ?ops ?tr)) = get_cap a ?ops"
      by (rule bind_symbols_frame)
    with True nz show ?thesis
      unfolding step by (simp add: get_cap_set_cap)
  next
    case False
    with Cons.prems have d: "distinct cs" and m: "c \<in> set cs" by auto
    have ok: "fst (snd (bind_symbols env cs ?ops ?tr))"
      using Cons.prems(1) unfolding step .
    show ?thesis
      unfolding step by (rule Cons.IH [OF ok d m])
  qed
qed

lemma ready_iff:
  "ready e \<longleftrightarrow> (\<exists>ops. wrapper_ops e = Some ops \<and> lib_handle ops \<noteq> 0 \<and> (\<forall>c. get_cap c ops \<noteq> 0))"
  by (cases "wrapper_ops e")
     (auto simp: ready_def module_handle_def callable_def entry_point_def list_all_iff
        all_capabilities_complete)

lemma inert_iff:
  "inert e \<longleftrightarrow> (case wrapper_ops e of None \<Rightarrow> True
                  | Some ops \<Rightarrow> lib_handle ops = 0 \<and> (\<forall>c. get_cap c ops = 0))"
  by (cases "wrapper_ops e")
     (auto simp: inert_def module_handle_def callable_def entry_point_def list_all_iff
        all_capabilities_complete)

lemma get_cap_null_ops: "get_cap c null_ops = 0"
  by (cases c; simp add: null_ops_def)

lemma get_cap_lib_handle_update: "get_cap c (ops\<lparr>lib_handle := h\<rparr>) = get_cap c ops"
  by (cases c; simp)

lemma observe_inert: "inert e \<Longrightarrow> observe e = observe (never_initialised p)"
  by (cases "wrapper_ops e")
     (auto simp: inert_iff observe_def never_initialised_def module_handle_def callable_def
        entry_point_def)

lemma init_symbols_cases:
  assumes "init_symbols env e ops tr = (e', tr')" and "lib_handle ops \<noteq> 0"
  shows "(ready e' \<and> module_handle e' = lib_handle ops \<and> loaded_libs tr' = loaded_libs tr)
       \<or> (wrapper_ops e' = None \<and> loaded_libs tr' = loaded_libs tr - {#lib_handle ops#})"
proof -
  let ?b = "bind_symbols env all_capabilities ops tr"
  obtain ops' ok tr1 where b: "?b = (ops', ok, tr1)"
    by (cases ?b) auto
  have lh: "lib_handle ops' = lib_handle ops"
    using bind_symbols_lib_handle [of env all_capabilities ops tr] by (simp add: b)
  have ld: "loaded_libs tr1 = loaded_libs tr"
    using bind_symbols_loaded [of env all_capabilities ops tr] by (simp add: b)
  show ?thesis
  proof (cases ok)
    case True
    have "get_cap c ops' \<noteq> 0" for c
      using bind_symbols_ok [of env all_capabilities ops tr c] True
      by (simp add: b distinct_all_capabilities all_capabilities_complete)
    then have "ready (e\<lparr>wrapper_ops := Some ops'\<rparr>)"
      using assms(2) lh by (simp add: ready_iff)
    moreover from assms(1) True
    have "e' = e\<lparr>wrapper_ops := Some ops'\<rparr>"
      and "tr' = tr1 @ [ALOGI ''LVACFS initialized successfully'']"
      by (simp_all add: init_symbols_def b)
    ultimately show ?thesis
      using lh ld by (simp add: module_handle_def loaded_libs_snoc)
  next
    case False
    with assms(1) have "(e', tr') = deinit (e\<lparr>wrapper_ops := Some ops'\<rparr>)
                      (tr1 @ [ALOGE ''Failed to load one or more symbols: %s''])"
      by (simp add: init_symbols_def b)
    then have "wrapper_ops e' = None"
      and "tr' = tr1 @ [ALOGE ''Failed to load one or more symbols: %s'', Dlclose (lib_handle ops),
             ALOGI ''LVACFS deinitialized'']"
      using assms(2) lh by (simp_all add: deinit_def)
    then show ?thesis
      using ld by (simp add: loaded_libs_snoc)
  qed
qed

lemma init_load_cases:
  assumes "init_load env e tr = (e', tr')"
  shows "(ready e' \<and> loaded_libs tr' = add_mset (module_handle e') (loaded_libs tr))
       \<or> (inert e' \<and> loaded_libs tr' = loaded_libs tr)"
proof -
  let ?e1 = "e\<lparr>wrapper_ops := Some null_ops\<rparr>"
  let ?h1 = "dlopen_result env (ODM_LIB_PATH (lp64 env))"
  let ?h2 = "dlopen_result env (VENDOR_LIB_PATH (lp64 env))"
  let ?tr1 = "tr @ [Dlopen (ODM_LIB_PATH (lp64 env)) ?h1]"
  let ?tr2 = "?tr1 @ [Dlopen (VENDOR_LIB_PATH (lp64 env)) ?h2]"
  consider (odm) "?h1 \<noteq> 0" | (vendor) "?h1 = 0" "?h2 \<noteq> 0" | (none) "?h1 = 0" "?h2 = 0"
    by blast
  then show ?thesis
  proof cases
    case odm
    with assms have "init_symbols env ?e1 (null_ops\<lparr>lib_handle := ?h1\<rparr>) ?tr1 = (e', tr')"
      by (simp add: init_load_def Let_def)
    from init_symbols_cases [OF this] odm show ?thesis
      by (auto simp: loaded_libs_snoc inert_iff)
  next
    case vendor
    with assms have "init_symbols env ?e1 (null_ops\<lparr>lib_handle := ?h2\<rparr>) ?tr2 = (e', tr')"
      by (simp add: init_load_def Let_def)
    from init_symbols_cases [OF this] vendor show ?thesis
      by (auto simp: loaded_libs_snoc inert_iff)
  next
    case none
    with assms show ?thesis
      by (auto simp: init_load_def Let_def loaded_libs_snoc inert_iff get_cap_lib_handle_update
          get_cap_null_ops)
  qed
qed

lemma ready_not_inert: "ready e \<Longrightarrow> \<not> inert e"
  by (simp add: ready_def inert_def)

lemma inert_never_initialised: "inert (never_initialised p)"
  by (simp add: inert_iff never_initialised_def)

text \<open>The three ways through the first part of \<open>init\<close>.\<close>

lemma init_odm:
  "access_ok env ODM_PARAMS_DIR_PATH \<Longrightarrow>
   init env e tr = init_load env (e\<lparr>params_file_path := Some ODM_PARAMS_DIR_PATH\<rparr>)
                     (tr @ [Access ODM_PARAMS_DIR_PATH True])"
  by (simp add: init_def Let_def)

lemma init_vendor:
  "\<not> access_ok env ODM_PARAMS_DIR_PATH \<Longrightarrow> access_ok env VENDOR_PARAMS_DIR_PATH \<Longrightarrow>
   init env e tr = init_load env (e\<lparr>params_file_path := Some VENDOR_PARAMS_DIR_PATH\<rparr>)
                     (tr @ [Access ODM_PARAMS_DIR_PATH False, Access VENDOR_PARAMS_DIR_PATH True])"
  by (simp add: init_def Let_def)

lemma init_no_params:
  "\<not> access_ok env ODM_PARAMS_DIR_PATH \<Longrightarrow> \<not> access_ok env VENDOR_PARAMS_DIR_PATH \<Longrightarrow>
   init env e tr = (e, tr @ [Access ODM_PARAMS_DIR_PATH False, Access VENDOR_PARAMS_DIR_PATH False,
                             ALOGE ''No params directory found''])"
  by (simp add: init_def Let_def)

lemma init_cases:
  assumes "init env e tr = (e', tr')" and "inert e"
  shows "(ready e' \<and> loaded_libs tr' = add_mset (module_handle e') (loaded_libs tr))
       \<or> (inert e' \<and> loaded_libs tr' = loaded_libs tr)"
proof (cases "access_ok env ODM_PARAMS_DIR_PATH")
  case True
  from assms(1) have "init_load env (e\<lparr>params_file_path := Some ODM_PARAMS_DIR_PATH\<rparr>)
      (tr @ [Access ODM_PARAMS_DIR_PATH True]) = (e', tr')"
    by (simp only: init_odm [OF True])
  from init_load_cases [OF this] show ?thesis
    by (simp add: loaded_libs_snoc)
next
  case odm: False
  show ?thesis
  proof (cases "access_ok env VENDOR_PARAMS_DIR_PATH")
    case True
    from assms(1) have "init_load env (e\<lparr>params_file_path := Some VENDOR_PARAMS_DIR_PATH\<rparr>)
        (tr @ [Access ODM_PARAMS_DIR_PATH False, Access VENDOR_PARAMS_DIR_PATH True]) = (e', tr')"
      by (simp only: init_vendor [OF odm True])
    from init_load_cases [OF this] show ?thesis
      by (simp add: loaded_libs_snoc)
  next
    case False
    from assms(1) have "e' = e" and "tr' = tr @ [Access ODM_PARAMS_DIR_PATH False,
        Access VENDOR_PARAMS_DIR_PATH False, ALOGE ''No params directory found'']"
      by (simp_all add: init_no_params [OF odm False])
    with assms(2) show ?thesis
      by (simp add: loaded_libs_snoc)
  qed
qed




lemma projections_single:
  "access_checks [ev] = access_of ev" "dlopen_attempts [ev] = dlopen_of ev"
  "dlsym_lookups [ev] = dlsym_of ev"
  by (simp_all add: access_checks_def dlopen_attempts_def dlsym_lookups_def)














lemma paths_distinct:
  "ODM_PARAMS_DIR_PATH \<noteq> VENDOR_PARAMS_DIR_PATH"
  "ODM_LIB_PATH lp \<noteq> VENDOR_LIB_PATH lp'"
  by (simp_all add: ODM_PARAMS_DIR_PATH_def VENDOR_PARAMS_DIR_PATH_def ODM_LIB_PATH_def
      VENDOR_LIB_PATH_def ODM_LIBS_def VENDOR_LIBS_def)

text \<open>\<open>init\<close> on the two concrete devices.\<close>

lemma init_env_ready:
  "init env_ready (never_initialised None) [] =
     (engine_ready,
      [Access ODM_PARAMS_DIR_PATH False, Access VENDOR_PARAMS_DIR_PATH True,
       Dlopen (ODM_LIB_PATH True) 0, Dlopen (VENDOR_LIB_PATH True) 7,
       Dlsym 7 ''lvacfs_wrapper_CreateLibraryInstance'' 9,
       Dlsym 7 ''lvacfs_wrapper_DestroyLibraryInstance'' 9,
       Dlsym 7 ''lvacfs_wrapper_Process'' 9,
       Dlsym 7 ''lvacfs_wrapper_UpdateZoomInfo'' 9,
       Dlsym 7 ''lvacfs_wrapper_UpdateAngleInfo'' 9,
       Dlsym 7 ''lvacfs_SetParamsFilePath'' 9,
       Dlsym 7 ''lvacfs_wrapper_SetProfile'' 9,
       Dlsym 7 ''lvacfs_wrapper_SetAudioDirection'' 9,
       Dlsym 7 ''lvacfs_wrapper_SetDeviceOrientation'' 9,
       Dlsym 7 ''lvacfs_wrapper_GetVersions'' 9,
       ALOGI ''LVACFS initialized successfully''])"
  by (simp add: init_def init_load_def init_symbols_def all_capabilities_def env_ready_def
      never_initialised_def engine_ready_def Let_def paths_distinct null_ops_def)

lemma init_env_half_bound:
  "init env_half_bound (never_initialised None) [] =
     (\<lparr> params_file_path = Some VENDOR_PARAMS_DIR_PATH, wrapper_ops = None \<rparr>,
      [Access ODM_PARAMS_DIR_PATH False, Access VENDOR_PARAMS_DIR_PATH True,
       Dlopen (ODM_LIB_PATH True) 0, Dlopen (VENDOR_LIB_PATH True) 7,
       Dlsym 7 ''lvacfs_wrapper_CreateLibraryInstance'' 9,
       Dlsym 7 ''lvacfs_wrapper_DestroyLibraryInstance'' 9,
       Dlsym 7 ''lvacfs_wrapper_Process'' 0,
       ALOGE ''Failed to load one or more symbols: %s'', Dlclose 7,
       ALOGI ''LVACFS deinitialized''])"
  by (simp add: init_def init_load_def init_symbols_def all_capabilities_def env_ready_def
      env_half_bound_def never_initialised_def Let_def paths_distinct null_ops_def deinit_def)

lemma ready_engine_ready: "ready engine_ready"
  by (simp add: ready_def module_handle_def callable_def entry_point_def all_capabilities_def
      engine_ready_def)

text \<open>\<open>deinit\<close>, case by case.\<close>

lemma deinit_engine:
  "fst (deinit e tr) = e\<lparr>wrapper_ops := None\<rparr>"
  by (simp add: deinit_def Let_def)

lemma deinit_trace_inert:
  "module_handle e = 0 \<Longrightarrow> snd (deinit e tr) = tr @ [ALOGI ''LVACFS deinitialized'']"
  by (cases "wrapper_ops e") (simp_all add: deinit_def module_handle_def Let_def)

lemma deinit_trace_loaded:
  "module_handle e \<noteq> 0 \<Longrightarrow>
   snd (deinit e tr) = tr @ [Dlclose (module_handle e), ALOGI ''LVACFS deinitialized'']"
  by (cases "wrapper_ops e") (simp_all add: deinit_def module_handle_def Let_def)

lemma module_handle_cleared: "module_handle (e\<lparr>wrapper_ops := None\<rparr>) = 0"
  by (simp add: module_handle_def)

lemma inert_cleared: "inert (e\<lparr>wrapper_ops := None\<rparr>)"
  by (simp add: inert_iff)

lemma inert_module_handle: "inert e \<Longrightarrow> module_handle e = 0"
  by (simp add: inert_def)

lemma init_not_ready_inert:
  "inert e \<Longrightarrow> \<not> ready (fst (init env e tr)) \<Longrightarrow>
   inert (fst (init env e tr)) \<and> loaded_libs (snd (init env e tr)) = loaded_libs tr"
  using init_cases [of env e tr, OF prod.collapse [symmetric]] by blast

section \<open>Lemmas about the stream operations\<close>

lemma ready_callable: "ready e \<Longrightarrow> callable e c"
  by (simp add: ready_def list_all_iff all_capabilities_complete)

lemma invoke_callable:
  "callable e c \<Longrightarrow>
   invoke env e c a tr = Inr (module_ret env tr a, tr @ [Call a (module_ret env tr a)])"
  by (cases "entry_point e c") (simp_all add: callable_def invoke_def Let_def)

lemma invoke_not_divide: "invoke env e c a tr \<noteq> Inl DivideByZero"
  by (cases "wrapper_ops e") (simp_all add: invoke_def entry_point_def Let_def)

lemma stopInputStream_callable:
  "callable e CapDestroyInstance \<Longrightarrow>
   stopInputStream env e s tr
     = Inr (s\<lparr>lvacfs_handle := 0\<rparr>, tr @ destroy_events env (lvacfs_handle s) tr)"
  by (simp add: stopInputStream_def invoke_callable destroy_events_def Let_def)

lemma stopInputStream_not_divide: "stopInputStream env e s tr \<noteq> Inl DivideByZero"
proof (cases "invoke env e CapDestroyInstance (DestroyInstance (lvacfs_handle s)) tr")
  case (Inl f)
  with invoke_not_divide [of env e CapDestroyInstance "DestroyInstance (lvacfs_handle s)" tr]
  show ?thesis by (simp add: stopInputStream_def)
next
  case (Inr r)
  then show ?thesis by (cases r) (simp add: stopInputStream_def Let_def)
qed

lemma live_allocs_append: "live_allocs (tr @ evs) = foldl alloc_step (live_allocs tr) evs"
  by (simp add: live_allocs_def)

lemma call_projections_append:
  "create_calls (tr @ evs) = create_calls tr @ create_calls evs"
  "destroy_calls (tr @ evs) = destroy_calls tr @ destroy_calls evs"
  "process_calls (tr @ evs) = process_calls tr @ process_calls evs"
  by (simp_all add: create_calls_def destroy_calls_def process_calls_def)

lemma call_projections_Cons:
  "create_calls (ev # evs) = create_of ev @ create_calls evs"
  "destroy_calls (ev # evs) = destroy_of ev @ destroy_calls evs"
  "process_calls (ev # evs) = process_of ev @ process_calls evs"
  by (simp_all add: create_calls_def destroy_calls_def process_calls_def)

lemma call_projections_Nil:
  "create_calls [] = []" "destroy_calls [] = []" "process_calls [] = []"
  by (simp_all add: create_calls_def destroy_calls_def process_calls_def)

lemmas call_projections = call_projections_append call_projections_Cons call_projections_Nil

lemma destroy_events_calls:
  "destroy_calls (destroy_events env h tr) = [h]"
  "create_calls (destroy_events env h tr) = []"
  "process_calls (destroy_events env h tr) = []"
  by (simp_all add: destroy_events_def Let_def call_projections)

lemma destroy_events_allocs:
  "foldl alloc_step m (destroy_events env h tr) = m - {#h#}"
  by (simp add: destroy_events_def Let_def)

text \<open>\<open>startInputStream\<close> overwrites the handle before it reads anything of the stream.\<close>

lemma startInputStream_ignores_handle:
  "startInputStream env e (s\<lparr>lvacfs_handle := h\<rparr>) tr = startInputStream env e s tr"
  by (simp add: startInputStream_def)

lemma startInputStream_callable:
  assumes "callable e CapSetParamsFilePath" and "callable e CapCreateInstance"
    and "calloc_result env tr \<noteq> 0"
  shows "startInputStream env e s tr =
     (if create_ret env e s tr < 0
      then stopInputStream env e (s\<lparr>lvacfs_handle := calloc_result env tr\<rparr>)
             (trace_to_create env e tr
                @ [Call (create_args env s (calloc_result env tr)) (create_ret env e s tr),
                   ALOGE ''create instance failed: %d''])
      else Inr (s\<lparr>lvacfs_handle := calloc_result env tr\<rparr>,
                trace_to_create env e tr
                  @ [Call (create_args env s (calloc_result env tr)) (create_ret env e s tr)]))"
  using assms
  by (simp add: startInputStream_def invoke_callable Let_def create_args_def
      trace_to_create_def create_ret_def)


lemma trace_to_create_projections:
  "create_calls (trace_to_create env e tr) = create_calls tr"
  "destroy_calls (trace_to_create env e tr) = destroy_calls tr"
  "calloc_result env tr \<noteq> 0 \<Longrightarrow>
     live_allocs (trace_to_create env e tr) = add_mset (calloc_result env tr) (live_allocs tr)"
  by (simp_all add: trace_to_create_def Let_def call_projections live_allocs_append)

text \<open>A failed creation: the whole run of \<open>startInputStream\<close>.\<close>

lemma startInputStream_create_fails:
  assumes "ready e" and "calloc_result env tr \<noteq> 0" and "create_ret env e s tr < 0"
  defines "tr3 \<equiv> trace_to_create env e tr
                @ [Call (create_args env s (calloc_result env tr)) (create_ret env e s tr),
                   ALOGE ''create instance failed: %d'']"
  shows "startInputStream env e s tr
           = stopInputStream env e (s\<lparr>lvacfs_handle := calloc_result env tr\<rparr>) tr3"
    and "startInputStream env e s tr
           = Inr (s\<lparr>lvacfs_handle := 0\<rparr>, tr3 @ destroy_events env (calloc_result env tr) tr3)"
    and "live_allocs (tr3 @ destroy_events env (calloc_result env tr) tr3) = live_allocs tr"
    and "destroy_calls (tr3 @ destroy_events env (calloc_result env tr) tr3)
           = destroy_calls tr @ [calloc_result env tr]"
    and "create_calls (tr3 @ destroy_events env (calloc_result env tr) tr3)
           = create_calls tr @ create_of (Call (create_args env s (calloc_result env tr))
                                              (create_ret env e s tr))"
proof -
  show 1: "startInputStream env e s tr
           = stopInputStream env e (s\<lparr>lvacfs_handle := calloc_result env tr\<rparr>) tr3"
    unfolding tr3_def
    using startInputStream_callable [OF ready_callable [OF assms(1)]
        ready_callable [OF assms(1)] assms(2), of s] assms(3)
    by simp
  show "startInputStream env e s tr
           = Inr (s\<lparr>lvacfs_handle := 0\<rparr>, tr3 @ destroy_events env (calloc_result env tr) tr3)"
    unfolding 1
    using stopInputStream_callable [OF ready_callable [OF assms(1)], of env
        "s\<lparr>lvacfs_handle := calloc_result env tr\<rparr>" tr3]
    by simp
  show "live_allocs (tr3 @ destroy_events env (calloc_result env tr) tr3) = live_allocs tr"
    using assms(2)
    by (simp add: live_allocs_append destroy_events_allocs tr3_def trace_to_create_projections)
  show "destroy_calls (tr3 @ destroy_events env (calloc_result env tr) tr3)
           = destroy_calls tr @ [calloc_result env tr]"
    by (simp add: call_projections destroy_events_calls tr3_def trace_to_create_projections
        create_args_def)
  show "create_calls (tr3 @ destroy_events env (calloc_result env tr) tr3)
           = create_calls tr @ create_of (Call (create_args env s (calloc_result env tr))
                                              (create_ret env e s tr))"
    by (simp add: call_projections destroy_events_calls tr3_def trace_to_create_projections)
qed

lemma zero_not_live: "0 \<notin># live_allocs tr"
proof (induction tr rule: rev_induct)
  case Nil
  show ?case by (simp add: live_allocs_def)
next
  case (snoc ev tr)
  show ?case
  proof (cases ev)
    case (Calloc h)
    with snoc show ?thesis by (simp add: live_allocs_append)
  next
    case (Free h)
    with snoc show ?thesis by (auto simp: live_allocs_append dest: in_diffD)
  qed (use snoc in \<open>simp_all add: live_allocs_append\<close>)
qed

lemma free_null_live: "live_allocs tr - {#0#} = live_allocs tr"
  using zero_not_live [of tr] by simp

lemma processInputStream_callable:
  fixes env e s buffer bytes tr n
  assumes "callable e CapProcess"
    and "num_frames_of (lp64 env) bytes
           (audio_channel_count_from_in_mask env (channel_mask (config s)))
           (audio_bytes_per_sample env (format (config s))) = Inr n"
  defines "a \<equiv> Process (lvacfs_handle s) buffer n status_buffer"
    and "tr0 \<equiv> tr @ [LockAcquire]"
  shows "processInputStream env e s buffer bytes tr =
     (if module_ret env tr0 a < 0
      then (case stopInputStream env e s
                   (tr0 @ [Call a (module_ret env tr0 a), ALOGE ''process failed: %d'']) of
              Inl f \<Rightarrow> Inl f
            | Inr (s', tr2) \<Rightarrow> Inr (s', module_buffer env tr0 a, tr2 @ [LockRelease]))
      else Inr (s, module_buffer env tr0 a, tr0 @ [Call a (module_ret env tr0 a), LockRelease]))"
  unfolding a_def tr0_def using assms(1,2)
  by (simp add: processInputStream_def invoke_callable Let_def)

text \<open>Runs on the concrete inputs.\<close>

lemma run_create_fails:
  "startInputStream env_create_fails engine_ready stream0 [] =
     Inr (stream0,
          [Calloc 100, Call (SetParamsFilePath (Some VENDOR_PARAMS_DIR_PATH)) 0,
           Call (CreateInstance 100 1 48000 0x20002) (- 1),
           ALOGE ''create instance failed: %d'',
           Call (DestroyInstance 100) 0, Free 100])"
  by (simp add: startInputStream_def stopInputStream_def invoke_def entry_point_def
      engine_ready_def env_create_fails_def env_ready_def stream0_def channels_of_def
      sample_rate_and_format_of_def Let_def)

lemma run_start_ok:
  "startInputStream env_ready engine_ready stream0 [] =
     Inr (stream_started,
          [Calloc 100, Call (SetParamsFilePath (Some VENDOR_PARAMS_DIR_PATH)) 0,
           Call (CreateInstance 100 1 48000 0x20002) 0])"
  by (simp add: startInputStream_def invoke_def entry_point_def engine_ready_def
      env_ready_def stream0_def stream_started_def channels_of_def
      sample_rate_and_format_of_def Let_def)

lemma frames_3200: "num_frames_of True 3200 2 2 = Inr 800"
  by (simp add: num_frames_of_def frame_size_def to_size_t_def size_t_bits_def)

lemma frames_320: "num_frames_of True 320 1 2 = Inr 160"
  by (simp add: num_frames_of_def frame_size_def to_size_t_def size_t_bits_def)

lemma run_process_fails:
  "processInputStream env_process_fails engine_ready stream_started [] 3200 [] =
     Inr (stream0, [],
          [LockAcquire, Call (Process 100 [] 800 status_buffer) (- 1),
           ALOGE ''process failed: %d'', Call (DestroyInstance 100) 0, Free 100,
           LockRelease])"
  by (simp add: processInputStream_def stopInputStream_def invoke_def entry_point_def
      engine_ready_def env_process_fails_def env_ready_def stream0_def stream_started_def
      frames_3200 Let_def)

lemma run_process_ok:
  "processInputStream env_ready engine_ready stream_started [] 3200 [] =
     Inr (stream_started, [],
          [LockAcquire, Call (Process 100 [] 800 status_buffer) 0, LockRelease])"
  by (simp add: processInputStream_def invoke_def entry_point_def
      engine_ready_def env_ready_def stream_started_def frames_3200 Let_def)

text \<open>A failed processing call: the whole run of \<open>processInputStream\<close>.\<close>

lemma processInputStream_process_fails:
  fixes env e s buffer bytes tr n
  defines "a \<equiv> Process (lvacfs_handle s) buffer n status_buffer"
  defines "trp \<equiv> tr @ [LockAcquire, Call a (module_ret env (tr @ [LockAcquire]) a),
                         ALOGE ''process failed: %d'']"
  assumes "ready e"
    and "num_frames_of (lp64 env) bytes
           (audio_channel_count_from_in_mask env (channel_mask (config s)))
           (audio_bytes_per_sample env (format (config s))) = Inr n"
    and "module_ret env (tr @ [LockAcquire]) a < 0"
  shows "stopInputStream env e s trp
           = Inr (s\<lparr>lvacfs_handle := 0\<rparr>, trp @ destroy_events env (lvacfs_handle s) trp)"
    and "processInputStream env e s buffer bytes tr
           = Inr (s\<lparr>lvacfs_handle := 0\<rparr>, module_buffer env (tr @ [LockAcquire]) a,
                  (trp @ destroy_events env (lvacfs_handle s) trp) @ [LockRelease])"
    and "live_allocs ((trp @ destroy_events env (lvacfs_handle s) trp) @ [LockRelease])
           = live_allocs tr - {#lvacfs_handle s#}"
proof -
  show 1: "stopInputStream env e s trp
           = Inr (s\<lparr>lvacfs_handle := 0\<rparr>, trp @ destroy_events env (lvacfs_handle s) trp)"
    by (rule stopInputStream_callable [OF ready_callable [OF assms(3)]])
  have "processInputStream env e s buffer bytes tr =
      (case stopInputStream env e s trp of
         Inl f \<Rightarrow> Inl f
       | Inr (s', tr2) \<Rightarrow>
           Inr (s', module_buffer env (tr @ [LockAcquire]) a, tr2 @ [LockRelease]))"
    using processInputStream_callable [OF ready_callable [OF assms(3)] assms(4), of buffer tr]
      assms(5)
    unfolding a_def trp_def by simp
  then show "processInputStream env e s buffer bytes tr
           = Inr (s\<lparr>lvacfs_handle := 0\<rparr>, module_buffer env (tr @ [LockAcquire]) a,
                  (trp @ destroy_events env (lvacfs_handle s) trp) @ [LockRelease])"
    by (simp add: 1)
  show "live_allocs ((trp @ destroy_events env (lvacfs_handle s) trp) @ [LockRelease])
           = live_allocs tr - {#lvacfs_handle s#}"
    by (simp add: live_allocs_append destroy_events_allocs trp_def a_def)
qed

text \<open>The packed arguments of create-instance, bit by bit.\<close>

lemma mask16: "(0xFFFF :: 32 word) = mask 16"
  by (simp add: mask_eq_exp_minus_1)

lemma channels_upper: "drop_bit 16 (channels_of c) = c AND 0xFFFF"
  unfolding channels_of_def mask16
  by (rule bit_word_eqI) (auto simp: bit_simps)

lemma channels_lower: "channels_of c AND 0xFFFF = c AND 0xFFFF"
  unfolding channels_of_def mask16
  by (rule bit_word_eqI) (auto simp: bit_simps)

lemma channels_upper16: "(ucast (drop_bit 16 (channels_of c)) :: 16 word) = ucast c"
  unfolding channels_of_def mask16
  by (rule bit_word_eqI) (auto simp: bit_simps)

lemma channels_lower16: "(ucast (channels_of c) :: 16 word) = ucast c"
  unfolding channels_of_def mask16
  by (rule bit_word_eqI) (auto simp: bit_simps)

lemma small_mask: "unat c < 65536 \<Longrightarrow> c AND 0xFFFF = (c :: 32 word)"
  unfolding mask16
  by (rule less_mask_eq) (simp add: word_less_nat_alt)

lemma channels_small:
  "unat c < 65536 \<Longrightarrow>
   unat (drop_bit 16 (channels_of c)) = unat c \<and> unat (channels_of c AND 0xFFFF) = unat c"
  by (simp only: channels_upper channels_lower small_mask)

lemma rate_format_upper: "drop_bit 32 (sample_rate_and_format_of r) = 0"
  unfolding sample_rate_and_format_of_def
  by (rule bit_word_eqI) (auto simp: bit_simps dest: bit_imp_le_length)

lemma rate_format_lower: "(ucast (sample_rate_and_format_of r) :: 32 word) = r"
  unfolding sample_rate_and_format_of_def
  by (rule bit_word_eqI) (auto simp: bit_simps)

text \<open>Every run of \<open>startInputStream\<close> that gets its storage, on a ready engine.\<close>

lemma startInputStream_ready:
  assumes "ready e" and "calloc_result env tr \<noteq> 0"
  shows "\<exists>s' tr'. startInputStream env e s tr = Inr (s', tr')
      \<and> create_calls tr' = create_calls tr
           @ create_of (Call (create_args env s (calloc_result env tr)) (create_ret env e s tr))"
proof (cases "create_ret env e s tr < 0")
  case True
  note r = startInputStream_create_fails [OF assms True]
  from r(2) r(5) show ?thesis by blast
next
  case False
  let ?tr = "trace_to_create env e tr
      @ [Call (create_args env s (calloc_result env tr)) (create_ret env e s tr)]"
  have "startInputStream env e s tr = Inr (s\<lparr>lvacfs_handle := calloc_result env tr\<rparr>, ?tr)"
    using startInputStream_callable [OF ready_callable [OF assms(1)]
        ready_callable [OF assms(1)] assms(2), of s] False
    by simp
  moreover have "create_calls ?tr = create_calls tr
      @ create_of (Call (create_args env s (calloc_result env tr)) (create_ret env e s tr))"
    by (simp add: call_projections trace_to_create_projections)
  ultimately show ?thesis by blast
qed

text \<open>The frame size and the frame count.\<close>

lemma to_size_t_pos: "0 < sint (c :: 32 word) \<Longrightarrow> to_size_t lp (sint c) = nat (sint c)"
  using sint_lt [of c] by (cases lp) (simp_all add: to_size_t_def size_t_bits_def)

lemma frame_size_exact:
  "0 < sint (c :: 32 word) \<Longrightarrow> nat (sint c) * w < 2 ^ size_t_bits lp
     \<Longrightarrow> frame_size lp c w = nat (sint c) * w"
  by (simp add: frame_size_def to_size_t_pos)

lemma frame_size_zero: "sint (c :: 32 word) = 0 \<or> w = 0 \<Longrightarrow> frame_size lp c w = 0"
  by (auto simp: frame_size_def to_size_t_def)

lemma num_frames_of_zero:
  "frame_size lp c w = 0 \<Longrightarrow> num_frames_of lp bytes c w = Inl DivideByZero"
  by (simp add: num_frames_of_def)

lemma num_frames_of_nonzero:
  "frame_size lp c w \<noteq> 0 \<Longrightarrow>
   num_frames_of lp bytes c w = Inr (of_nat (bytes div frame_size lp c w))"
  by (simp add: num_frames_of_def)

lemma processInputStream_divide:
  "frame_size (lp64 env) (audio_channel_count_from_in_mask env (channel_mask (config s)))
     (audio_bytes_per_sample env (format (config s))) = 0
   \<Longrightarrow> processInputStream env e s buffer bytes tr = Inl DivideByZero"
  by (simp add: processInputStream_def num_frames_of_zero Let_def)

lemma processInputStream_no_divide:
  assumes "frame_size (lp64 env) (audio_channel_count_from_in_mask env (channel_mask (config s)))
     (audio_bytes_per_sample env (format (config s))) \<noteq> 0"
  shows "processInputStream env e s buffer bytes tr \<noteq> Inl DivideByZero"
proof -
  let ?d = "frame_size (lp64 env) (audio_channel_count_from_in_mask env (channel_mask (config s)))
     (audio_bytes_per_sample env (format (config s)))"
  let ?a = "Process (lvacfs_handle s) buffer (of_nat (bytes div ?d)) status_buffer"
  let ?tr0 = "tr @ [LockAcquire]"
  note unfold = processInputStream_def num_frames_of_nonzero [OF assms] Let_def
  show ?thesis
  proof (cases "invoke env e CapProcess ?a ?tr0")
    case (Inl f)
    then have "processInputStream env e s buffer bytes tr = Inl f"
      by (simp add: unfold)
    with Inl invoke_not_divide [of env e CapProcess ?a ?tr0] show ?thesis
      by simp
  next
    case (Inr r)
    obtain ret tr1 where r: "r = (ret, tr1)" by (cases r)
    show ?thesis
    proof (cases "ret < 0")
      case False
      with Inr r show ?thesis by (simp add: unfold)
    next
      case True
      show ?thesis
      proof (cases "stopInputStream env e s (tr1 @ [ALOGE ''process failed: %d''])")
        case (Inl f)
        with True \<open>invoke env e CapProcess ?a ?tr0 = Inr r\<close> r
        have "processInputStream env e s buffer bytes tr = Inl f"
          by (simp add: unfold)
        with Inl stopInputStream_not_divide [of env e s "tr1 @ [ALOGE ''process failed: %d'']"]
        show ?thesis by simp
      next
        case (Inr q)
        with True \<open>invoke env e CapProcess ?a ?tr0 = Inr r\<close> r show ?thesis
          by (cases q) (simp add: unfold)
      qed
    qed
  qed
qed

text \<open>Every run of \<open>processInputStream\<close> with a non-zero frame size, on a ready engine.\<close>

lemma processInputStream_ready:
  fixes env e s buffer bytes tr
  defines "d \<equiv> frame_size (lp64 env)
                  (audio_channel_count_from_in_mask env (channel_mask (config s)))
                  (audio_bytes_per_sample env (format (config s)))"
  assumes "ready e" and "d \<noteq> 0"
  shows "\<exists>s' buffer' tr'. processInputStream env e s buffer bytes tr = Inr (s', buffer', tr')
      \<and> process_calls tr' = process_calls tr @ [(lvacfs_handle s, of_nat (bytes div d))]"
proof -
  let ?n = "of_nat (bytes div d) :: 32 word"
  let ?a = "Process (lvacfs_handle s) buffer ?n status_buffer"
  have nf: "num_frames_of (lp64 env) bytes
           (audio_channel_count_from_in_mask env (channel_mask (config s)))
           (audio_bytes_per_sample env (format (config s))) = Inr ?n"
    using assms(3) unfolding d_def by (rule num_frames_of_nonzero)
  show ?thesis
  proof (cases "module_ret env (tr @ [LockAcquire]) ?a < 0")
    case True
    note r = processInputStream_process_fails [OF assms(2) nf True]
    let ?trp = "tr @ [LockAcquire, Call ?a (module_ret env (tr @ [LockAcquire]) ?a),
                      ALOGE ''process failed: %d'']"
    have "process_calls ((?trp @ destroy_events env (lvacfs_handle s) ?trp) @ [LockRelease])
        = process_calls tr @ [(lvacfs_handle s, ?n)]"
      by (simp add: call_projections destroy_events_calls)
    with r(2) show ?thesis by blast
  next
    case False
    let ?tr' = "(tr @ [LockAcquire]) @ [Call ?a (module_ret env (tr @ [LockAcquire]) ?a), LockRelease]"
    have "processInputStream env e s buffer bytes tr
        = Inr (s, module_buffer env (tr @ [LockAcquire]) ?a, ?tr')"
      using processInputStream_callable [OF ready_callable [OF assms(2)] nf, of buffer tr] False
      by simp
    moreover have "process_calls ?tr' = process_calls tr @ [(lvacfs_handle s, ?n)]"
      by (simp add: call_projections)
    ultimately show ?thesis by blast
  qed
qed

lemma run_process_huge:
  "processInputStream env_mono8 engine_ready stream_started [] 4294967296 [] =
     Inr (stream_started, [],
          [LockAcquire, Call (Process 100 [] 0 status_buffer) 0, LockRelease])"
  by (simp add: processInputStream_def invoke_def entry_point_def engine_ready_def
      env_mono8_def env_ready_def stream_started_def num_frames_of_def frame_size_def
      to_size_t_def size_t_bits_def Let_def)

lemma run_process_no_channels:
  "processInputStream env_no_channels engine_ready stream_started [] 0 [] = Inl DivideByZero"
  by (simp add: processInputStream_def env_no_channels_def env_ready_def
      num_frames_of_def frame_size_def to_size_t_def size_t_bits_def Let_def)

lemma run_process_mono16:
  "processInputStream env_mono16 engine_ready stream_started [] 320 [] =
     Inr (stream_started, [],
          [LockAcquire, Call (Process 100 [] 160 status_buffer) 0, LockRelease])"
  by (simp add: processInputStream_def invoke_def entry_point_def engine_ready_def
      env_mono16_def env_ready_def stream_started_def frames_320 Let_def)









lemma unat_frames: "unat (of_nat n :: 32 word) = n mod 2 ^ 32"
  by (simp add: unat_of_nat)

lemma env_ready_stream:
  "lp64 env_ready = True"
  "audio_channel_count_from_in_mask env_ready (channel_mask (config stream_started)) = 2"
  "audio_bytes_per_sample env_ready (format (config stream_started)) = 2"
  by (simp_all add: env_ready_def)

lemma env_mono16_stream:
  "lp64 env_mono16 = True"
  "audio_channel_count_from_in_mask env_mono16 (channel_mask (config stream_started)) = 1"
  "audio_bytes_per_sample env_mono16 (format (config stream_started)) = 2"
  by (simp_all add: env_mono16_def env_ready_def)

lemma env_mono8_stream:
  "lp64 env_mono8 = True"
  "audio_channel_count_from_in_mask env_mono8 (channel_mask (config stream_started)) = 1"
  "audio_bytes_per_sample env_mono8 (format (config stream_started)) = 1"
  by (simp_all add: env_mono8_def env_ready_def)

lemma env_no_channels_stream:
  "audio_channel_count_from_in_mask env_no_channels (channel_mask (config stream_started)) = 0"
  "audio_bytes_per_sample env_no_channels (format (config stream_started)) = 2"
  by (simp_all add: env_no_channels_def env_ready_def)

section \<open>The claims\<close>

subsection \<open>Initialisation is all or nothing\<close>

text \<open>
  C1. After \<open>init\<close> returns on a never-initialised engine, for every outcome of the
  existence checks, of the two \<open>dlopen\<close> attempts and of each \<open>dlsym\<close>, the engine is in
  exactly one of two observable states. Either it is ready: the module handle is non-null,
  each of the ten entry points is callable, and the module is the one library that
  \<open>init\<close> left loaded. Or it is inert: the module handle is null, no entry point is
  callable, the observations (module handle and callable entry points) are those of an
  engine on which \<open>init\<close> was never called, and \<open>init\<close> left no library loaded. A table
  with some entry points bound and others not is never observed. (The comparison is on
  what is observable: the members themselves keep the resolved parameter path, and after
  a failed load \<open>wrapper_ops_\<close> still owns a table whose members are all null.)
\<close>

theorem init_ready_or_inert:
  assumes "init env (never_initialised p) tr = (e', tr')"
  shows "(ready e' \<and> \<not> inert e'
            \<and> loaded_libs tr' = add_mset (module_handle e') (loaded_libs tr))
       \<or> (inert e' \<and> \<not> ready e' \<and> observe e' = observe (never_initialised p)
            \<and> loaded_libs tr' = loaded_libs tr)"
  using init_cases [OF assms inert_never_initialised] ready_not_inert observe_inert
  by blast

theorem init_ready_or_inert_witness:
  "ready (fst (init env_ready (never_initialised None) []))
   \<and> loaded_libs (snd (init env_ready (never_initialised None) [])) = {#7#}
   \<and> inert (fst (init env_half_bound (never_initialised None) []))
   \<and> loaded_libs (snd (init env_half_bound (never_initialised None) [])) = {#}"
  using init_ready_or_inert [of env_ready None "[]", OF prod.collapse [symmetric]]
    init_ready_or_inert [of env_half_bound None "[]", OF prod.collapse [symmetric]]
  by (simp add: init_env_ready init_env_half_bound inert_iff ready_iff engine_ready_def
      module_handle_def loaded_libs_def)

subsection \<open>Overlay first, vendor second\<close>



subsection \<open>Teardown of the engine\<close>

text \<open>
  C7. \<open>deinit\<close> is safe and idempotent from every state. After any call the table is
  cleared (the engine is inert, the parameter path is kept) and the module, if one was
  loaded, has been unloaded by exactly one \<open>dlclose\<close> of its handle. On an inert engine
  the call closes nothing: it only clears the table and logs. That is the case after a
  first \<open>deinit\<close>, so a second call in a row changes nothing and closes nothing, and it is
  the case after an \<open>init\<close> that failed at the parameter path, at the load or at symbol
  resolution, where the library that \<open>init\<close> opened has already been closed by \<open>init\<close>.
\<close>

theorem deinit_safe_idempotent:
  fixes e tr env p t
  defines "e1 \<equiv> fst (deinit e tr)" and "tr1 \<equiv> snd (deinit e tr)"
    and "ei \<equiv> fst (init env (never_initialised p) t)"
    and "ti \<equiv> snd (init env (never_initialised p) t)"
  shows "wrapper_ops e1 = None \<and> params_file_path e1 = params_file_path e \<and> inert e1
     \<and> (module_handle e \<noteq> 0 \<longrightarrow>
           tr1 = tr @ [Dlclose (module_handle e), ALOGI ''LVACFS deinitialized'']
           \<and> loaded_libs tr1 = loaded_libs tr - {#module_handle e#})
     \<and> (module_handle e = 0 \<longrightarrow> tr1 = tr @ [ALOGI ''LVACFS deinitialized'']
           \<and> loaded_libs tr1 = loaded_libs tr)
     \<and> deinit e1 tr1 = (e1, tr1 @ [ALOGI ''LVACFS deinitialized''])
     \<and> (\<not> ready ei \<longrightarrow>
           snd (deinit ei ti) = ti @ [ALOGI ''LVACFS deinitialized'']
           \<and> wrapper_ops (fst (deinit ei ti)) = None
           \<and> loaded_libs (snd (deinit ei ti)) = loaded_libs t)"
proof -
  have e1: "e1 = e\<lparr>wrapper_ops := None\<rparr>"
    unfolding e1_def by (rule deinit_engine)
  have a: "wrapper_ops e1 = None \<and> params_file_path e1 = params_file_path e \<and> inert e1"
    by (simp add: e1 inert_cleared)
  have b: "module_handle e \<noteq> 0 \<longrightarrow>
           tr1 = tr @ [Dlclose (module_handle e), ALOGI ''LVACFS deinitialized'']
           \<and> loaded_libs tr1 = loaded_libs tr - {#module_handle e#}"
    unfolding tr1_def by (simp add: deinit_trace_loaded loaded_libs_snoc)
  have c: "module_handle e = 0 \<longrightarrow> tr1 = tr @ [ALOGI ''LVACFS deinitialized'']
           \<and> loaded_libs tr1 = loaded_libs tr"
    unfolding tr1_def by (simp add: deinit_trace_inert loaded_libs_snoc)
  have "fst (deinit e1 tr1) = e1"
    by (simp add: deinit_engine e1)
  moreover have "snd (deinit e1 tr1) = tr1 @ [ALOGI ''LVACFS deinitialized'']"
    by (rule deinit_trace_inert) (simp add: e1 module_handle_cleared)
  ultimately have d: "deinit e1 tr1 = (e1, tr1 @ [ALOGI ''LVACFS deinitialized''])"
    by (simp add: prod_eq_iff)
  have f: "\<not> ready ei \<longrightarrow>
           snd (deinit ei ti) = ti @ [ALOGI ''LVACFS deinitialized'']
           \<and> wrapper_ops (fst (deinit ei ti)) = None
           \<and> loaded_libs (snd (deinit ei ti)) = loaded_libs t"
  proof
    assume "\<not> ready ei"
    then have i: "inert ei" and l: "loaded_libs ti = loaded_libs t"
      using init_not_ready_inert [OF inert_never_initialised, of env p t]
      unfolding ei_def ti_def by simp_all
    from i have "snd (deinit ei ti) = ti @ [ALOGI ''LVACFS deinitialized'']"
      by (simp add: deinit_trace_inert inert_module_handle)
    then show "snd (deinit ei ti) = ti @ [ALOGI ''LVACFS deinitialized'']
           \<and> wrapper_ops (fst (deinit ei ti)) = None
           \<and> loaded_libs (snd (deinit ei ti)) = loaded_libs t"
      using l by (simp add: deinit_engine loaded_libs_snoc)
  qed
  from a b c d f show ?thesis by blast
qed

theorem deinit_safe_idempotent_witness:
  "module_handle engine_ready = 7
   \<and> deinit engine_ready [Dlopen (VENDOR_LIB_PATH True) 7]
       = (engine_ready\<lparr>wrapper_ops := None\<rparr>,
          [Dlopen (VENDOR_LIB_PATH True) 7, Dlclose 7, ALOGI ''LVACFS deinitialized''])
   \<and> loaded_libs (snd (deinit engine_ready [Dlopen (VENDOR_LIB_PATH True) 7])) = {#}
   \<and> \<not> ready (fst (init env_half_bound (never_initialised None) []))
   \<and> loaded_libs (snd (deinit (fst (init env_half_bound (never_initialised None) []))
                               (snd (init env_half_bound (never_initialised None) [])))) = {#}"
proof -
  have m: "module_handle engine_ready = 7"
    by (simp add: module_handle_def engine_ready_def)
  have n: "\<not> ready (fst (init env_half_bound (never_initialised None) []))"
    by (simp add: init_env_half_bound ready_iff)
  show ?thesis
    using m n
      deinit_safe_idempotent [of engine_ready "[Dlopen (VENDOR_LIB_PATH True) 7]"
        env_half_bound None "[]"]
    by (simp add: prod_eq_iff deinit_engine loaded_libs_def init_env_half_bound)
qed

subsection \<open>Teardown of a session\<close>

text \<open>
  C6. On an engine whose destroy-instance entry point is bound, \<open>stopInputStream\<close>
  invokes the destroy capability once, with the session's handle; a negative return code
  is logged and nothing else: whatever the code, the call returns normally, the handle
  storage is given back to the allocator, and the session's handle is null with every
  other member unchanged. A later \<open>startInputStream\<close> on the session behaves as on the
  session before teardown: it allocates afresh and never looks at the old handle.
\<close>

theorem stopInputStream_always_tears_down:
  fixes env e s tr
  defines "h \<equiv> lvacfs_handle s"
    and "ret \<equiv> module_ret env tr (DestroyInstance (lvacfs_handle s))"
  assumes "callable e CapDestroyInstance"
  shows "\<exists>tr'. stopInputStream env e s tr = Inr (s\<lparr>lvacfs_handle := 0\<rparr>, tr')
          \<and> tr' = tr @ [Call (DestroyInstance h) ret]
                     @ (if ret < 0 then [ALOGE ''destroy instance failed: %d''] else [])
                     @ [Free h]
          \<and> destroy_calls tr' = destroy_calls tr @ [h]
          \<and> live_allocs tr' = live_allocs tr - {#h#}
          \<and> (\<forall>env2 e2 tr2. startInputStream env2 e2 (s\<lparr>lvacfs_handle := 0\<rparr>) tr2
                               = startInputStream env2 e2 s tr2)"
proof -
  let ?tr' = "tr @ destroy_events env h tr"
  have "stopInputStream env e s tr = Inr (s\<lparr>lvacfs_handle := 0\<rparr>, ?tr')"
    unfolding h_def using assms(3) by (rule stopInputStream_callable)
  moreover have "?tr' = tr @ [Call (DestroyInstance h) ret]
                     @ (if ret < 0 then [ALOGE ''destroy instance failed: %d''] else [])
                     @ [Free h]"
    by (simp add: destroy_events_def h_def ret_def Let_def)
  moreover have "destroy_calls ?tr' = destroy_calls tr @ [h]"
    by (simp add: call_projections_append destroy_events_calls)
  moreover have "live_allocs ?tr' = live_allocs tr - {#h#}"
    by (simp add: live_allocs_append destroy_events_allocs)
  ultimately show ?thesis
    using startInputStream_ignores_handle by blast
qed

theorem stopInputStream_always_tears_down_witness:
  "callable engine_ready CapDestroyInstance
   \<and> module_ret env_destroy_fails [Calloc 100] (DestroyInstance 100) < 0
   \<and> stopInputStream env_destroy_fails engine_ready stream_started [Calloc 100]
       = Inr (stream0,
              [Calloc 100, Call (DestroyInstance 100) (- 5),
               ALOGE ''destroy instance failed: %d'', Free 100])
   \<and> live_allocs [Calloc 100, Call (DestroyInstance 100) (- 5),
                   ALOGE ''destroy instance failed: %d'', Free 100] = {#}"
proof -
  have c: "callable engine_ready CapDestroyInstance"
    by (rule ready_callable [OF ready_engine_ready])
  have r: "module_ret env_destroy_fails [Calloc 100] (DestroyInstance 100) = - 5"
    by (simp add: env_destroy_fails_def)
  have s: "lvacfs_handle stream_started = 100" "stream_started\<lparr>lvacfs_handle := 0\<rparr> = stream0"
    by (simp_all add: stream_started_def stream0_def)
  have l: "live_allocs [Calloc 100] = {#100#}"
    by (simp add: live_allocs_def)
  show ?thesis
    using c stopInputStream_always_tears_down [of engine_ready env_destroy_fails stream_started
        "[Calloc 100]", OF c]
    by (auto simp: r s l)
qed

subsection \<open>A failed session is a torn-down session\<close>

text \<open>
  C3. On a ready engine, a negative code from create-instance in \<open>startInputStream\<close>
  and a negative code from process in \<open>processInputStream\<close> both end in the stop path:
  the result of the call is the result of \<open>stopInputStream\<close> on the session at that
  point (followed, for processing, by the release of the lock). The session that comes
  back differs from the one that went in at most in its handle, which is null, and its
  handle storage has been freed: after a failed start the allocator holds what it held
  before the call. Such a session is the session that was never started: if the handle
  was null before a failed start, the session is unchanged; it can be started again, the
  start behaving as on the original session; and it can be stopped again without freeing
  anything.
\<close>

theorem failed_session_is_torn_down:
  fixes env e s tr buffer bytes n t
  defines "h \<equiv> calloc_result env tr"
    and "s0 \<equiv> s\<lparr>lvacfs_handle := 0\<rparr>"
    and "a \<equiv> Process (lvacfs_handle s) buffer n status_buffer"
  defines "trc \<equiv> trace_to_create env e tr
                   @ [Call (create_args env s h) (create_ret env e s tr),
                      ALOGE ''create instance failed: %d'']"
    and "trp \<equiv> tr @ [LockAcquire, Call a (module_ret env (tr @ [LockAcquire]) a),
                       ALOGE ''process failed: %d'']"
  assumes "ready e"
  shows "(h \<noteq> 0 \<and> create_ret env e s tr < 0 \<longrightarrow>
            startInputStream env e s tr = stopInputStream env e (s\<lparr>lvacfs_handle := h\<rparr>) trc
            \<and> (\<exists>tr'. startInputStream env e s tr = Inr (s0, tr')
                      \<and> live_allocs tr' = live_allocs tr))
     \<and> (num_frames_of (lp64 env) bytes
            (audio_channel_count_from_in_mask env (channel_mask (config s)))
            (audio_bytes_per_sample env (format (config s))) = Inr n
          \<and> module_ret env (tr @ [LockAcquire]) a < 0 \<longrightarrow>
            (\<exists>tr' buffer'. stopInputStream env e s trp = Inr (s0, tr')
                \<and> processInputStream env e s buffer bytes tr
                     = Inr (s0, buffer', tr' @ [LockRelease])
                \<and> live_allocs (tr' @ [LockRelease]) = live_allocs tr - {#lvacfs_handle s#}))
     \<and> (lvacfs_handle s = 0 \<longrightarrow> s0 = s)
     \<and> startInputStream env e s0 t = startInputStream env e s t
     \<and> (\<exists>t'. stopInputStream env e s0 t = Inr (s0, t') \<and> live_allocs t' = live_allocs t)"
proof -
  have start: "h \<noteq> 0 \<and> create_ret env e s tr < 0 \<longrightarrow>
            startInputStream env e s tr = stopInputStream env e (s\<lparr>lvacfs_handle := h\<rparr>) trc
            \<and> (\<exists>tr'. startInputStream env e s tr = Inr (s0, tr')
                      \<and> live_allocs tr' = live_allocs tr)"
  proof
    assume f: "h \<noteq> 0 \<and> create_ret env e s tr < 0"
    then have nz: "calloc_result env tr \<noteq> 0" and neg: "create_ret env e s tr < 0"
      by (simp_all add: h_def)
    note r = startInputStream_create_fails [OF assms(6) nz neg]
    have "startInputStream env e s tr = stopInputStream env e (s\<lparr>lvacfs_handle := h\<rparr>) trc"
      unfolding h_def trc_def by (rule r(1))
    moreover have "\<exists>tr'. startInputStream env e s tr = Inr (s0, tr')
                      \<and> live_allocs tr' = live_allocs tr"
      unfolding s0_def using r(2) r(3) by blast
    ultimately show "startInputStream env e s tr
              = stopInputStream env e (s\<lparr>lvacfs_handle := h\<rparr>) trc
            \<and> (\<exists>tr'. startInputStream env e s tr = Inr (s0, tr')
                      \<and> live_allocs tr' = live_allocs tr)"
      by simp
  qed
  have proc: "num_frames_of (lp64 env) bytes
            (audio_channel_count_from_in_mask env (channel_mask (config s)))
            (audio_bytes_per_sample env (format (config s))) = Inr n
          \<and> module_ret env (tr @ [LockAcquire]) a < 0 \<longrightarrow>
            (\<exists>tr' buffer'. stopInputStream env e s trp = Inr (s0, tr')
                \<and> processInputStream env e s buffer bytes tr
                     = Inr (s0, buffer', tr' @ [LockRelease])
                \<and> live_allocs (tr' @ [LockRelease]) = live_allocs tr - {#lvacfs_handle s#})"
  proof
    assume f: "num_frames_of (lp64 env) bytes
            (audio_channel_count_from_in_mask env (channel_mask (config s)))
            (audio_bytes_per_sample env (format (config s))) = Inr n
          \<and> module_ret env (tr @ [LockAcquire]) a < 0"
    then have nf: "num_frames_of (lp64 env) bytes
            (audio_channel_count_from_in_mask env (channel_mask (config s)))
            (audio_bytes_per_sample env (format (config s))) = Inr n"
      and neg: "module_ret env (tr @ [LockAcquire])
                  (Process (lvacfs_handle s) buffer n status_buffer) < 0"
      by (simp_all add: a_def)
    note r = processInputStream_process_fails [OF assms(6) nf neg]
    show "\<exists>tr' buffer'. stopInputStream env e s trp = Inr (s0, tr')
                \<and> processInputStream env e s buffer bytes tr
                     = Inr (s0, buffer', tr' @ [LockRelease])
                \<and> live_allocs (tr' @ [LockRelease]) = live_allocs tr - {#lvacfs_handle s#}"
      unfolding s0_def trp_def a_def using r(1) r(2) r(3) by blast
  qed
  have same: "lvacfs_handle s = 0 \<longrightarrow> s0 = s"
    by (simp add: s0_def)
  have again: "startInputStream env e s0 t = startInputStream env e s t"
    unfolding s0_def by (rule startInputStream_ignores_handle)
  have "stopInputStream env e s0 t = Inr (s0, t @ destroy_events env 0 t)"
    using stopInputStream_callable [OF ready_callable [OF assms(6)], of env s0 t]
    by (simp add: s0_def)
  moreover have "live_allocs (t @ destroy_events env 0 t) = live_allocs t"
    by (simp add: live_allocs_append destroy_events_allocs free_null_live)
  ultimately have stop: "\<exists>t'. stopInputStream env e s0 t = Inr (s0, t')
      \<and> live_allocs t' = live_allocs t"
    by blast
  from start proc same again stop show ?thesis by blast
qed

theorem failed_session_is_torn_down_witness:
  "ready engine_ready
   \<and> calloc_result env_create_fails [] \<noteq> 0
   \<and> create_ret env_create_fails engine_ready stream0 [] < 0
   \<and> startInputStream env_create_fails engine_ready stream0 []
       = Inr (stream0,
              [Calloc 100, Call (SetParamsFilePath (Some VENDOR_PARAMS_DIR_PATH)) 0,
               Call (CreateInstance 100 1 48000 0x20002) (- 1),
               ALOGE ''create instance failed: %d'',
               Call (DestroyInstance 100) 0, Free 100])
   \<and> startInputStream env_ready engine_ready stream0 []
       = Inr (stream_started,
              [Calloc 100, Call (SetParamsFilePath (Some VENDOR_PARAMS_DIR_PATH)) 0,
               Call (CreateInstance 100 1 48000 0x20002) 0])
   \<and> num_frames_of (lp64 env_process_fails) 3200
         (audio_channel_count_from_in_mask env_process_fails (channel_mask (config stream_started)))
         (audio_bytes_per_sample env_process_fails (format (config stream_started))) = Inr 800
   \<and> module_ret env_process_fails [LockAcquire] (Process 100 [] 800 status_buffer) < 0
   \<and> processInputStream env_process_fails engine_ready stream_started [] 3200 []
       = Inr (stream0, [],
              [LockAcquire, Call (Process 100 [] 800 status_buffer) (- 1),
               ALOGE ''process failed: %d'', Call (DestroyInstance 100) 0, Free 100,
               LockRelease])
   \<and> (\<exists>t'. stopInputStream env_create_fails engine_ready stream0 [] = Inr (stream0, t')
             \<and> live_allocs t' = live_allocs [])"
proof -
  have c: "calloc_result env_create_fails [] \<noteq> 0"
    "create_ret env_create_fails engine_ready stream0 [] < 0"
    by (simp_all add: env_create_fails_def env_ready_def create_ret_def create_args_def)
  have p: "num_frames_of (lp64 env_process_fails) 3200
         (audio_channel_count_from_in_mask env_process_fails (channel_mask (config stream_started)))
         (audio_bytes_per_sample env_process_fails (format (config stream_started))) = Inr 800"
    "module_ret env_process_fails [LockAcquire] (Process 100 [] 800 status_buffer) < 0"
    by (simp_all add: env_process_fails_def env_ready_def frames_3200)
  have z: "stream0\<lparr>lvacfs_handle := 0\<rparr> = stream0"
    "stream_started\<lparr>lvacfs_handle := 0\<rparr> = stream0" "lvacfs_handle stream_started = 100"
    by (simp_all add: stream0_def stream_started_def)
  show ?thesis
    using c p ready_engine_ready
      failed_session_is_torn_down [OF ready_engine_ready, where env = env_create_fails
        and s = stream0 and tr = "[]" and t = "[]"]
      failed_session_is_torn_down [OF ready_engine_ready, where env = env_process_fails
        and s = stream_started and tr = "[]" and buffer = "[]" and bytes = 3200 and n = 800]
    by (simp add: run_create_fails run_start_ok run_process_fails z)
qed

subsection \<open>The arguments of create-instance\<close>

text \<open>
  C5. For every stream, on a ready engine and with storage for the handle,
  \<open>startInputStream\<close> makes exactly one create-instance call, with the new handle, the
  stream's source and two packed values. Of the packed channel value, the upper 16 bits
  and the lower 16 bits both equal the stream's channel count, as 16-bit values (for a
  count below 65536 they are the count itself). Of the combined 64-bit value, the upper 32
  bits are the constant 0 and the lower 32 bits are the stream's sample rate.
\<close>

theorem create_instance_arguments:
  fixes env e s tr
  defines "cc \<equiv> audio_channel_count_from_in_mask env (channel_mask (config s))"
  defines "channels \<equiv> channels_of cc"
    and "rate_format \<equiv> sample_rate_and_format_of (sample_rate (config s))"
  assumes "ready e" and "calloc_result env tr \<noteq> 0"
  shows "(\<exists>s' tr'. startInputStream env e s tr = Inr (s', tr')
            \<and> create_calls tr'
                = create_calls tr @ [(calloc_result env tr, source s, rate_format, channels)])
     \<and> drop_bit 16 channels = cc AND 0xFFFF \<and> channels AND 0xFFFF = cc AND 0xFFFF
     \<and> (ucast (drop_bit 16 channels) :: 16 word) = ucast cc
     \<and> (ucast channels :: 16 word) = ucast cc
     \<and> (unat cc < 65536 \<longrightarrow>
           unat (drop_bit 16 channels) = unat cc \<and> unat (channels AND 0xFFFF) = unat cc)
     \<and> drop_bit 32 rate_format = 0
     \<and> (ucast rate_format :: 32 word) = sample_rate (config s)"
proof -
  have "\<exists>s' tr'. startInputStream env e s tr = Inr (s', tr')
            \<and> create_calls tr'
                = create_calls tr @ [(calloc_result env tr, source s, rate_format, channels)]"
    using startInputStream_ready [OF assms(4) assms(5), of s]
    by (simp add: create_args_def channels_def rate_format_def cc_def)
  moreover have "unat cc < 65536 \<longrightarrow>
           unat (drop_bit 16 channels) = unat cc \<and> unat (channels AND 0xFFFF) = unat cc"
    unfolding channels_def using channels_small [of cc] by blast
  ultimately show ?thesis
    unfolding channels_def rate_format_def
    using channels_upper [of cc] channels_lower [of cc] channels_upper16 [of cc]
      channels_lower16 [of cc] rate_format_upper [of "sample_rate (config s)"]
      rate_format_lower [of "sample_rate (config s)"]
    by blast
qed

theorem create_instance_arguments_witness:
  "ready engine_ready \<and> calloc_result env_ready [] \<noteq> 0
   \<and> audio_channel_count_from_in_mask env_ready (channel_mask (config stream0)) = 2
   \<and> sample_rate (config stream0) = 48000
   \<and> create_calls (snd (projr (startInputStream env_ready engine_ready stream0 [])))
       = [(100, 1, 48000, 0x20002)]
   \<and> channels_of 2 = 0x20002 \<and> drop_bit 16 (0x20002 :: 32 word) = 2
   \<and> (0x20002 :: 32 word) AND 0xFFFF = 2
   \<and> sample_rate_and_format_of 48000 = 48000 \<and> drop_bit 32 (48000 :: 64 word) = 0"
proof -
  have c: "calloc_result env_ready [] \<noteq> 0"
    "audio_channel_count_from_in_mask env_ready (channel_mask (config stream0)) = 2"
    "sample_rate (config stream0) = 48000"
    by (simp_all add: env_ready_def stream0_def)
  have v: "channels_of 2 = 0x20002" "sample_rate_and_format_of 48000 = 48000"
    by (simp_all add: channels_of_def sample_rate_and_format_of_def)
  show ?thesis
    using ready_engine_ready c
      create_instance_arguments [OF ready_engine_ready c(1), of stream0]
    by (simp add: run_start_ok v call_projections)
qed

subsection \<open>The stop path has no guard\<close>




subsection \<open>The frame count\<close>

text \<open>
  C4, as stated: for every call with byte length \<open>bytes\<close>, channel count \<open>c\<close> and sample
  width \<open>w\<close> such that \<open>bytes\<close> is an exact multiple of \<open>c * w\<close>, the frame count
  passed to the process capability is \<open>bytes / (c * w)\<close>. Two calls show otherwise. On a
  64-bit build, a mono 8-bit stream and a buffer of \<open>2 ^ 32\<close> bytes: the quotient is
  \<open>2 ^ 32\<close>, and the \<open>uint32_t\<close> that is passed is 0. And a stream whose mask has no
  channel, with an empty buffer: 0 is a multiple of \<open>0 * 2\<close>, the division is by zero
  and no frame count is passed at all.
\<close>

theorem frame_count_counterexample:
  "lp64 env_mono8
   \<and> audio_channel_count_from_in_mask env_mono8 (channel_mask (config stream_started)) = 1
   \<and> audio_bytes_per_sample env_mono8 (format (config stream_started)) = 1
   \<and> (1 * 1 :: nat) dvd 4294967296
   \<and> processInputStream env_mono8 engine_ready stream_started [] 4294967296 []
       = Inr (stream_started, [],
              [LockAcquire, Call (Process 100 [] 0 status_buffer) 0, LockRelease])
   \<and> unat (0 :: 32 word) \<noteq> 4294967296 div (1 * 1)
   \<and> audio_channel_count_from_in_mask env_no_channels (channel_mask (config stream_started)) = 0
   \<and> audio_bytes_per_sample env_no_channels (format (config stream_started)) = 2
   \<and> (0 * 2 :: nat) dvd 0
   \<and> processInputStream env_no_channels engine_ready stream_started [] 0 [] = Inl DivideByZero"
  by (simp add: env_mono8_stream env_no_channels_stream run_process_huge
      run_process_no_channels)

text \<open>
  C4, amended. On a ready engine, for every call with channel count \<open>c \<ge> 1\<close> and sample
  width \<open>w \<ge> 1\<close> whose product is below \<open>2 ^ 64\<close> (\<open>2 ^ 32\<close> on a 32-bit build),
  \<open>processInputStream\<close> makes exactly one process call, on the session's handle, with
  frame count \<open>(bytes div (c * w)) mod 2 ^ 32\<close>. The frame count is \<open>bytes div (c * w)\<close>
  whenever that quotient is below \<open>2 ^ 32\<close>, and then, if \<open>bytes\<close> is an exact multiple
  of \<open>c * w\<close>, the frame count times \<open>c * w\<close> is \<open>bytes\<close>. When \<open>c\<close> or \<open>w\<close> is 0 the
  call ends in a division by zero. In particular, on a 64-bit build a 3200-byte buffer
  with \<open>c = 2\<close>, \<open>w = 2\<close> gives 800 frames and a 320-byte buffer with \<open>c = 1\<close>,
  \<open>w = 2\<close> gives 160 frames.
\<close>

theorem frame_count_passed:
  fixes env e s buffer bytes tr
  defines "cc \<equiv> audio_channel_count_from_in_mask env (channel_mask (config s))"
    and "w \<equiv> audio_bytes_per_sample env (format (config s))"
  defines "c \<equiv> nat (sint cc)"
  assumes "ready e"
  shows "(1 \<le> sint cc \<and> 1 \<le> w \<and> c * w < 2 ^ size_t_bits (lp64 env) \<longrightarrow>
           (\<exists>s' buffer' tr' frames.
               processInputStream env e s buffer bytes tr = Inr (s', buffer', tr')
             \<and> process_calls tr' = process_calls tr @ [(lvacfs_handle s, frames)]
             \<and> unat frames = (bytes div (c * w)) mod 2 ^ 32
             \<and> (bytes div (c * w) < 2 ^ 32 \<longrightarrow> unat frames = bytes div (c * w))
             \<and> (bytes div (c * w) < 2 ^ 32 \<and> c * w dvd bytes
                  \<longrightarrow> unat frames * (c * w) = bytes)))
     \<and> (sint cc = 0 \<or> w = 0 \<longrightarrow>
           processInputStream env e s buffer bytes tr = Inl DivideByZero)
     \<and> lp64 env_ready
     \<and> audio_channel_count_from_in_mask env_ready (channel_mask (config stream_started)) = 2
     \<and> audio_bytes_per_sample env_ready (format (config stream_started)) = 2
     \<and> processInputStream env_ready engine_ready stream_started [] 3200 []
         = Inr (stream_started, [],
                [LockAcquire, Call (Process 100 [] 800 status_buffer) 0, LockRelease])
     \<and> lp64 env_mono16
     \<and> audio_channel_count_from_in_mask env_mono16 (channel_mask (config stream_started)) = 1
     \<and> audio_bytes_per_sample env_mono16 (format (config stream_started)) = 2
     \<and> processInputStream env_mono16 engine_ready stream_started [] 320 []
         = Inr (stream_started, [],
                [LockAcquire, Call (Process 100 [] 160 status_buffer) 0, LockRelease])"
proof -
  have general: "1 \<le> sint cc \<and> 1 \<le> w \<and> c * w < 2 ^ size_t_bits (lp64 env) \<longrightarrow>
           (\<exists>s' buffer' tr' frames.
               processInputStream env e s buffer bytes tr = Inr (s', buffer', tr')
             \<and> process_calls tr' = process_calls tr @ [(lvacfs_handle s, frames)]
             \<and> unat frames = (bytes div (c * w)) mod 2 ^ 32
             \<and> (bytes div (c * w) < 2 ^ 32 \<longrightarrow> unat frames = bytes div (c * w))
             \<and> (bytes div (c * w) < 2 ^ 32 \<and> c * w dvd bytes
                  \<longrightarrow> unat frames * (c * w) = bytes))"
  proof
    assume h: "1 \<le> sint cc \<and> 1 \<le> w \<and> c * w < 2 ^ size_t_bits (lp64 env)"
    then have pos: "0 < sint cc" and fits: "nat (sint cc) * w < 2 ^ size_t_bits (lp64 env)"
      by (simp_all add: c_def)
    have d: "frame_size (lp64 env) cc w = c * w"
      unfolding c_def by (rule frame_size_exact [OF pos fits])
    from h have "0 < c" "0 < w" by (simp_all add: c_def)
    then have nz: "c * w \<noteq> 0" by simp
    let ?frames = "of_nat (bytes div (c * w)) :: 32 word"
    from processInputStream_ready [OF assms(4), of env s buffer bytes tr] d nz
    obtain s' buffer' tr' where
      run: "processInputStream env e s buffer bytes tr = Inr (s', buffer', tr')"
        "process_calls tr' = process_calls tr @ [(lvacfs_handle s, ?frames)]"
      unfolding cc_def w_def by auto
    have u: "unat ?frames = (bytes div (c * w)) mod 2 ^ 32"
      by (rule unat_frames)
    have small: "bytes div (c * w) < 2 ^ 32 \<longrightarrow> unat ?frames = bytes div (c * w)"
      by (simp add: u)
    have exact: "bytes div (c * w) < 2 ^ 32 \<and> c * w dvd bytes
        \<longrightarrow> unat ?frames * (c * w) = bytes"
      by (simp add: u)
    from run u small exact
    show "\<exists>s' buffer' tr' frames.
               processInputStream env e s buffer bytes tr = Inr (s', buffer', tr')
             \<and> process_calls tr' = process_calls tr @ [(lvacfs_handle s, frames)]
             \<and> unat frames = (bytes div (c * w)) mod 2 ^ 32
             \<and> (bytes div (c * w) < 2 ^ 32 \<longrightarrow> unat frames = bytes div (c * w))
             \<and> (bytes div (c * w) < 2 ^ 32 \<and> c * w dvd bytes
                  \<longrightarrow> unat frames * (c * w) = bytes)"
      by blast
  qed
  have zero: "sint cc = 0 \<or> w = 0 \<longrightarrow>
           processInputStream env e s buffer bytes tr = Inl DivideByZero"
  proof
    assume "sint cc = 0 \<or> w = 0"
    then have "frame_size (lp64 env) cc w = 0"
      by (rule frame_size_zero)
    then show "processInputStream env e s buffer bytes tr = Inl DivideByZero"
      unfolding cc_def w_def by (rule processInputStream_divide)
  qed
  from general zero show ?thesis
    by (simp only: env_ready_stream env_mono16_stream run_process_ok run_process_mono16
        simp_thms)
qed

theorem frame_count_passed_witness:
  "ready engine_ready
   \<and> 1 \<le> sint (audio_channel_count_from_in_mask env_ready (channel_mask (config stream_started)))
   \<and> 1 \<le> audio_bytes_per_sample env_ready (format (config stream_started))
   \<and> (2 * 2 :: nat) < 2 ^ size_t_bits (lp64 env_ready)
   \<and> (3200 :: nat) div (2 * 2) < 2 ^ 32 \<and> (2 * 2 :: nat) dvd 3200
   \<and> (\<exists>s' buffer' tr' frames.
          processInputStream env_ready engine_ready stream_started [] 3200 []
            = Inr (s', buffer', tr')
        \<and> process_calls tr' = [(100, frames)] \<and> unat frames = 800
        \<and> unat frames * (2 * 2) = 3200)"
proof -
  have h: "lvacfs_handle stream_started = 100"
    by (simp add: stream_started_def)
  show ?thesis
    using ready_engine_ready
      frame_count_passed [OF ready_engine_ready, of env_ready stream_started "[]" 3200 "[]"]
    by (simp add: env_ready_stream size_t_bits_def h call_projections)
qed

subsection \<open>The division has no guard\<close>

text \<open>
  C10. The frame-count computation divides by the \<open>size_t\<close> product of the channel
  count and the sample width without testing it: the call ends in a division by zero
  exactly when that product is 0. It is 0 whenever the channel count or the sample width
  is 0, so for a count that is not negative the division is defined only if both are at
  least 1. Conversely, when both are at least 1 (and their product does not wrap around
  in \<open>size_t\<close>, as no count of channels times a width of a sample in bytes does), the
  divisor is their product, it is not 0, and the division does not fault.
\<close>

theorem division_has_no_zero_guard:
  fixes env e s buffer bytes tr
  defines "cc \<equiv> audio_channel_count_from_in_mask env (channel_mask (config s))"
    and "w \<equiv> audio_bytes_per_sample env (format (config s))"
  defines "d \<equiv> frame_size (lp64 env) cc w"
  shows "(d = 0 \<longrightarrow> processInputStream env e s buffer bytes tr = Inl DivideByZero)
     \<and> (processInputStream env e s buffer bytes tr = Inl DivideByZero \<longrightarrow> d = 0)
     \<and> (sint cc = 0 \<or> w = 0 \<longrightarrow> d = 0)
     \<and> (0 \<le> sint cc \<and> d \<noteq> 0 \<longrightarrow> 1 \<le> sint cc \<and> 1 \<le> w)
     \<and> (1 \<le> sint cc \<and> 1 \<le> w \<and> nat (sint cc) * w < 2 ^ size_t_bits (lp64 env) \<longrightarrow>
           d = nat (sint cc) * w \<and> d \<noteq> 0
           \<and> processInputStream env e s buffer bytes tr \<noteq> Inl DivideByZero)"
proof -
  have a: "d = 0 \<longrightarrow> processInputStream env e s buffer bytes tr = Inl DivideByZero"
  proof
    assume "d = 0"
    then show "processInputStream env e s buffer bytes tr = Inl DivideByZero"
      unfolding d_def cc_def w_def by (rule processInputStream_divide)
  qed
  have nd: "d \<noteq> 0 \<Longrightarrow> processInputStream env e s buffer bytes tr \<noteq> Inl DivideByZero"
    unfolding d_def cc_def w_def by (rule processInputStream_no_divide)
  have b: "processInputStream env e s buffer bytes tr = Inl DivideByZero \<longrightarrow> d = 0"
  proof
    assume f: "processInputStream env e s buffer bytes tr = Inl DivideByZero"
    show "d = 0"
    proof (rule ccontr)
      assume "d \<noteq> 0"
      from nd [OF this] f show False by (rule notE)
    qed
  qed
  have z: "sint cc = 0 \<or> w = 0 \<longrightarrow> d = 0"
  proof
    assume "sint cc = 0 \<or> w = 0"
    then show "d = 0"
      unfolding d_def by (rule frame_size_zero)
  qed
  have n: "0 \<le> sint cc \<and> d \<noteq> 0 \<longrightarrow> 1 \<le> sint cc \<and> 1 \<le> w"
  proof
    assume h: "0 \<le> sint cc \<and> d \<noteq> 0"
    then have nz: "d \<noteq> 0" and nn: "0 \<le> sint cc"
      by (rule conjunct2, rule conjunct1)
    have c0: "sint cc \<noteq> 0"
    proof
      assume "sint cc = 0"
      then have "sint cc = 0 \<or> w = 0" by (rule disjI1)
      then have "d = 0" unfolding d_def by (rule frame_size_zero)
      with nz show False by (rule notE)
    qed
    have w0: "w \<noteq> 0"
    proof
      assume "w = 0"
      then have "sint cc = 0 \<or> w = 0" by (rule disjI2)
      then have "d = 0" unfolding d_def by (rule frame_size_zero)
      with nz show False by (rule notE)
    qed
    from nn c0 have "1 \<le> sint cc" by arith
    moreover from w0 have "1 \<le> w" by arith
    ultimately show "1 \<le> sint cc \<and> 1 \<le> w" by (rule conjI)
  qed
  have p: "1 \<le> sint cc \<and> 1 \<le> w \<and> nat (sint cc) * w < 2 ^ size_t_bits (lp64 env) \<longrightarrow>
           d = nat (sint cc) * w \<and> d \<noteq> 0
           \<and> processInputStream env e s buffer bytes tr \<noteq> Inl DivideByZero"
  proof
    assume h: "1 \<le> sint cc \<and> 1 \<le> w \<and> nat (sint cc) * w < 2 ^ size_t_bits (lp64 env)"
    then have pos: "0 < sint cc" and fits: "nat (sint cc) * w < 2 ^ size_t_bits (lp64 env)"
      by simp_all
    have eq: "d = nat (sint cc) * w"
      unfolding d_def by (rule frame_size_exact [OF pos fits])
    from h have "0 < nat (sint cc)" "0 < w" by simp_all
    then have "nat (sint cc) * w \<noteq> 0" by simp
    then have nz: "d \<noteq> 0" by (simp only: eq not_False_eq_True)
    from eq nz nd [OF nz] show "d = nat (sint cc) * w \<and> d \<noteq> 0
           \<and> processInputStream env e s buffer bytes tr \<noteq> Inl DivideByZero"
      by (intro conjI)
  qed
  from a b z n p show ?thesis
    by (intro conjI)
qed

theorem division_has_no_zero_guard_witness:
  "sint (audio_channel_count_from_in_mask env_no_channels (channel_mask (config stream_started))) = 0
   \<and> frame_size (lp64 env_no_channels) 0 2 = 0
   \<and> processInputStream env_no_channels engine_ready stream_started [] 3200 []
       = Inl DivideByZero
   \<and> 1 \<le> sint (audio_channel_count_from_in_mask env_ready (channel_mask (config stream_started)))
   \<and> 1 \<le> audio_bytes_per_sample env_ready (format (config stream_started))
   \<and> (2 * 2 :: nat) < 2 ^ size_t_bits (lp64 env_ready)
   \<and> frame_size (lp64 env_ready) 2 2 = 4
   \<and> processInputStream env_ready engine_ready stream_started [] 3200 [] \<noteq> Inl DivideByZero"
proof -
  have l: "lp64 env_no_channels = True"
    by (simp add: env_no_channels_def env_ready_def)
  have z: "frame_size True 0 2 = 0"
    by (simp add: frame_size_zero)
  have f: "frame_size True 2 2 = 4"
    using frame_size_exact [of 2 2 True] by (simp add: size_t_bits_def)
  show ?thesis
    using division_has_no_zero_guard
        [where env = env_no_channels and s = stream_started and e = engine_ready
           and buffer = "[]" and bytes = 3200 and tr = "[]"]
      division_has_no_zero_guard
        [where env = env_ready and s = stream_started and e = engine_ready
           and buffer = "[]" and bytes = 3200 and tr = "[]"]
    by (simp add: env_ready_stream env_no_channels_stream size_t_bits_def l z f)
qed

end
